theory Spec2Isabelle
  imports Main
begin

section \<open>JavaScript values\<close>

text \<open>
  The tool-call handler receives \<^verbatim>\<open>request.params.arguments\<close>, typed
  \<^verbatim>\<open>Record<string, unknown> | undefined\<close>: the values are whatever the JSON request
  carried. \<open>jsval\<close> has the JSON values and \<^verbatim>\<open>undefined\<close> (which \<^verbatim>\<open>args?.timezone\<close> yields
  for a missing key).

  A Number is carried by the text \<^verbatim>\<open>Number::toString\<close> prints for it (\<^verbatim>\<open>0.5\<close>, \<^verbatim>\<open>1e+21\<close>,
  \<^verbatim>\<open>Infinity\<close>): every Number has exactly one, and the handlers do nothing with a Number
  but test it for truth and print it. The zeros \<^verbatim>\<open>0\<close> and \<^verbatim>\<open>-0\<close> both print \<^verbatim>\<open>0\<close> and
  behave alike here. An object is the list of its own properties in their order; the
  values of a parsed JSON text are never functions. Strings are byte strings (UTF-8).
\<close>

datatype jsval =
    JUndefined
  | JNull
  | JBool bool
  | JNum string
  | JStr string
  | JArr "jsval list"
  | JObj "(string \<times> jsval) list"

text \<open>\<^verbatim>\<open>ToBoolean\<close>: the falsy values are \<^verbatim>\<open>undefined\<close>, \<^verbatim>\<open>null\<close>, \<^verbatim>\<open>false\<close>, zero,
  \<^verbatim>\<open>NaN\<close> and the empty string; every array and object is truthy.\<close>

fun ToBoolean :: "jsval \<Rightarrow> bool" where
  "ToBoolean JUndefined = False"
| "ToBoolean JNull = False"
| "ToBoolean (JBool b) = b"
| "ToBoolean (JNum n) = (n \<noteq> ''0'' \<and> n \<noteq> ''NaN'')"
| "ToBoolean (JStr s) = (s \<noteq> [])"
| "ToBoolean (JArr xs) = True"
| "ToBoolean (JObj kvs) = True"

text \<open>The operator \<^verbatim>\<open>a || b\<close>: the left operand when it is truthy, the right one otherwise.\<close>

definition js_or :: "jsval \<Rightarrow> jsval \<Rightarrow> jsval" where
  "js_or a b = (if ToBoolean a then a else b)"

fun join :: "string \<Rightarrow> string list \<Rightarrow> string" where
  "join sep [] = []"
| "join sep [x] = x"
| "join sep (x # y # ys) = x @ sep @ join sep (y # ys)"

fun digits :: "nat \<Rightarrow> string" where
  "digits n =
     (if n < 10 then [''0123456789'' ! n]
      else digits (n div 10) @ [''0123456789'' ! (n mod 10)])"

text \<open>The Number with an integer value. \<^verbatim>\<open>Number::toString\<close> prints an integer below
  \<open>10^21\<close> in magnitude by its decimal digits; the handlers build Numbers from the time
  value (at most \<open>8.64 * 10^15\<close> in magnitude) and from the getters of \<^verbatim>\<open>Date\<close> only.\<close>

definition Number_toString :: "int \<Rightarrow> string" where
  "Number_toString n = (if n < 0 then ''-'' @ digits (nat (- n)) else digits (nat n))"

definition JInt :: "int \<Rightarrow> jsval" where
  "JInt n = JNum (Number_toString n)"

text \<open>\<^verbatim>\<open>ToString\<close>, as a template literal \<^verbatim>\<open>`${v}`\<close> and the \<^verbatim>\<open>timeZone\<close> option apply it;
  \<open>None\<close> is the \<^verbatim>\<open>TypeError\<close> it throws. An array is joined with commas, \<^verbatim>\<open>null\<close> and
  \<^verbatim>\<open>undefined\<close> elements giving the empty string, and throws when an element does. An
  object is converted by its \<^verbatim>\<open>toString\<close>: the inherited one gives \<^verbatim>\<open>[object Object]\<close>; an
  own property \<^verbatim>\<open>toString\<close> hides it and is not callable, and then \<^verbatim>\<open>valueOf\<close> (inherited
  or own) yields no primitive either, so the conversion throws.\<close>

fun ToString :: "jsval \<Rightarrow> string option" where
  "ToString JUndefined = Some ''undefined''"
| "ToString JNull = Some ''null''"
| "ToString (JBool b) = Some (if b then ''true'' else ''false'')"
| "ToString (JNum n) = Some n"
| "ToString (JStr s) = Some s"
| "ToString (JArr xs) =
     map_option (join '','')
       (those (map (\<lambda>x. if x = JUndefined \<or> x = JNull then Some [] else ToString x) xs))"
| "ToString (JObj kvs) =
     (if ''toString'' \<in> set (map fst kvs) then None else Some ''[object Object]'')"

subsection \<open>\<^verbatim>\<open>JSON.stringify(value, null, 2)\<close>\<close>

definition hex_digit :: "nat \<Rightarrow> char" where
  "hex_digit n = ''0123456789abcdef'' ! n"

text \<open>\<^verbatim>\<open>QuoteJSONString\<close>: the double quote and the backslash are escaped, control
  characters are written by their short escape or as \<^verbatim>\<open>\u00XX\<close>.\<close>

definition escape_char :: "char \<Rightarrow> string" where
  "escape_char c =
     (if c = CHR 0x22 then [CHR 0x5C, CHR 0x22]
      else if c = CHR 0x5C then [CHR 0x5C, CHR 0x5C]
      else if c = CHR 0x08 then [CHR 0x5C, CHR ''b'']
      else if c = CHR 0x09 then [CHR 0x5C, CHR ''t'']
      else if c = CHR 0x0A then [CHR 0x5C, CHR ''n'']
      else if c = CHR 0x0C then [CHR 0x5C, CHR ''f'']
      else if c = CHR 0x0D then [CHR 0x5C, CHR ''r'']
      else if (of_char c :: nat) < 32
        then [CHR 0x5C, CHR ''u'', CHR ''0'', CHR ''0'',
              hex_digit ((of_char c :: nat) div 16), hex_digit ((of_char c :: nat) mod 16)]
      else [c])"

definition QuoteJSONString :: "string \<Rightarrow> string" where
  "QuoteJSONString s = [CHR 0x22] @ concat (map escape_char s) @ [CHR 0x22]"

definition gap :: string where
  "gap = ''  ''"

text \<open>An array or object whose parts are already serialized at indentation \<open>ind @ gap\<close>:
  empty brackets when there is no part, else one part per line.\<close>

definition wrap :: "string \<Rightarrow> string \<Rightarrow> string \<Rightarrow> string list \<Rightarrow> string" where
  "wrap opn cls ind parts =
     (if parts = [] then opn @ cls
      else opn @ [CHR 0x0A] @ (ind @ gap)
           @ join ('','' @ [CHR 0x0A] @ (ind @ gap)) parts
           @ [CHR 0x0A] @ ind @ cls)"

text \<open>\<^verbatim>\<open>SerializeJSONProperty\<close> at the current indentation: \<open>None\<close> is \<^verbatim>\<open>undefined\<close>, which
  an object leaves out with its key and an array writes as \<^verbatim>\<open>null\<close>. A Number that is
  not finite is written \<^verbatim>\<open>null\<close>. No value of a parsed JSON text has a callable
  \<^verbatim>\<open>toJSON\<close>, so none is called.\<close>

fun SerializeJSONProperty :: "string \<Rightarrow> jsval \<Rightarrow> string option"
  and SerializeJSONArray :: "string \<Rightarrow> jsval list \<Rightarrow> string list"
  and SerializeJSONObject :: "string \<Rightarrow> (string \<times> jsval) list \<Rightarrow> string list" where
  "SerializeJSONProperty ind JUndefined = None"
| "SerializeJSONProperty ind JNull = Some ''null''"
| "SerializeJSONProperty ind (JBool b) = Some (if b then ''true'' else ''false'')"
| "SerializeJSONProperty ind (JNum n) =
     Some (if n = ''NaN'' \<or> n = ''Infinity'' \<or> n = ''-Infinity'' then ''null'' else n)"
| "SerializeJSONProperty ind (JStr s) = Some (QuoteJSONString s)"
| "SerializeJSONProperty ind (JArr xs) =
     Some (wrap ''['' '']'' ind (SerializeJSONArray (ind @ gap) xs))"
| "SerializeJSONProperty ind (JObj kvs) =
     Some (wrap ''{'' ''}'' ind (SerializeJSONObject (ind @ gap) kvs))"
| "SerializeJSONArray ind [] = []"
| "SerializeJSONArray ind (x # xs) =
     (case SerializeJSONProperty ind x of None \<Rightarrow> ''null'' | Some s \<Rightarrow> s)
       # SerializeJSONArray ind xs"
| "SerializeJSONObject ind [] = []"
| "SerializeJSONObject ind ((k, v) # kvs) =
     (case SerializeJSONProperty ind v of
        None \<Rightarrow> SerializeJSONObject ind kvs
      | Some s \<Rightarrow> (QuoteJSONString k @ '': '' @ s) # SerializeJSONObject ind kvs)"

text \<open>\<^verbatim>\<open>JSON.stringify(obj, null, 2)\<close> of an object with the given properties, in their
  order.\<close>

definition JSON_stringify :: "(string \<times> jsval) list \<Rightarrow> string" where
  "JSON_stringify kvs = wrap ''{'' ''}'' [] (SerializeJSONObject gap kvs)"

section \<open>The host platform\<close>

text \<open>
  The handlers format dates with the JavaScript runtime (\<^verbatim>\<open>Date\<close>, \<^verbatim>\<open>Intl\<close>); the time zone
  database and the locale data are the host's, not this repository's, so the host is a
  parameter of the model. A \<^verbatim>\<open>Date\<close> object is its time value, the milliseconds since the
  epoch.
\<close>

datatype js_error = Error string | RangeError string | TypeError string

fun message :: "js_error \<Rightarrow> string" where
  "message (Error m) = m"
| "message (RangeError m) = m"
| "message (TypeError m) = m"

text \<open>The three classes are instances of \<^verbatim>\<open>Error\<close>; \<^verbatim>\<open>String(error)\<close> is
  \<^verbatim>\<open>Error.prototype.toString\<close>.\<close>

fun instanceof_Error :: "js_error \<Rightarrow> bool" where
  "instanceof_Error (Error m) = True"
| "instanceof_Error (RangeError m) = True"
| "instanceof_Error (TypeError m) = True"

fun String_error :: "js_error \<Rightarrow> string" where
  "String_error (Error m) = (if m = [] then ''Error'' else ''Error: '' @ m)"
| "String_error (RangeError m) = (if m = [] then ''RangeError'' else ''RangeError: '' @ m)"
| "String_error (TypeError m) = (if m = [] then ''TypeError'' else ''TypeError: '' @ m)"

text \<open>\<^verbatim>\<open>Intl.DateTimeFormatOptions\<close>, with the fields the source sets; \<open>None\<close> is a field
  left out. \<open>timeZone\<close> holds the value as the source passes it (\<^verbatim>\<open>timezone as string\<close> is
  a compile-time cast only): the platform applies \<^verbatim>\<open>ToString\<close> to it.\<close>

record DateTimeFormatOptions =
  timeZone :: "jsval option"
  weekday :: "string option"
  year :: "string option"
  month :: "string option"
  day :: "string option"
  hour :: "string option"
  minute :: "string option"
  second :: "string option"
  hour12 :: "bool option"
  timeZoneName :: "string option"

definition no_options :: DateTimeFormatOptions where
  "no_options =
     \<lparr>timeZone = None, weekday = None, year = None, month = None, day = None, hour = None,
      minute = None, second = None, hour12 = None, timeZoneName = None\<rparr>"

text \<open>The three entry points differ in the fields they show when the options name none:
  date and time, date only, date only.\<close>

datatype date_api = Date_toLocaleString | Date_toLocaleDateString | Intl_DateTimeFormat

text \<open>
  \<open>validTimeZone\<close> is the platform's check of a time zone identifier; \<open>formatDate\<close> renders a
  time value for an entry point, a locale (\<open>None\<close>: the host's default locale) and
  options that passed the check. \<open>invalidTimeZoneMessage\<close> is the message of the
  \<^verbatim>\<open>RangeError\<close> thrown for a \<open>timeZone\<close> whose string failed the check, and
  \<open>cannotConvertMessage\<close> the message of the \<^verbatim>\<open>TypeError\<close> thrown for a value that has no
  string; both are the engine's wording, for the value as it was passed. The getters read
  the time value in the host's time zone.
\<close>

record host =
  validTimeZone :: "string \<Rightarrow> bool"
  invalidTimeZoneMessage :: "jsval \<Rightarrow> string"
  cannotConvertMessage :: "jsval \<Rightarrow> string"
  formatDate :: "date_api \<Rightarrow> string option \<Rightarrow> DateTimeFormatOptions \<Rightarrow> int \<Rightarrow> string"
  toISOString :: "int \<Rightarrow> string"
  getFullYear :: "int \<Rightarrow> int"
  getMonth :: "int \<Rightarrow> int"
  getDate :: "int \<Rightarrow> int"
  getHours :: "int \<Rightarrow> int"
  getMinutes :: "int \<Rightarrow> int"
  getSeconds :: "int \<Rightarrow> int"
  getTimezoneOffset :: "int \<Rightarrow> int"

text \<open>A template literal \<^verbatim>\<open>`${v}`\<close>, and every other place that needs the string of a
  value: the string, or the \<^verbatim>\<open>TypeError\<close>.\<close>

definition ToString_throw :: "host \<Rightarrow> jsval \<Rightarrow> js_error + string" where
  "ToString_throw P v =
     (case ToString v of
        None \<Rightarrow> Inl (TypeError (cannotConvertMessage P v))
      | Some s \<Rightarrow> Inr s)"

definition bind_sum :: "'e + 'a \<Rightarrow> ('a \<Rightarrow> 'e + 'b) \<Rightarrow> 'e + 'b" where
  "bind_sum r f = (case r of Inl e \<Rightarrow> Inl e | Inr x \<Rightarrow> f x)"

text \<open>Creating a formatter resolves the options first: a \<open>timeZone\<close> that is present is
  converted to a string, which may throw, and the string is checked; an invalid one
  throws.\<close>

definition createDateTimeFormat ::
  "host \<Rightarrow> date_api \<Rightarrow> string option \<Rightarrow> DateTimeFormatOptions \<Rightarrow> js_error + (int \<Rightarrow> string)" where
  "createDateTimeFormat P api locales options =
     (case timeZone options of
        None \<Rightarrow> Inr (formatDate P api locales options)
      | Some tz \<Rightarrow>
          bind_sum (ToString_throw P tz) (\<lambda>zone.
            if validTimeZone P zone then Inr (formatDate P api locales options)
            else Inl (RangeError (invalidTimeZoneMessage P tz))))"

definition toLocaleString ::
  "host \<Rightarrow> int \<Rightarrow> string option \<Rightarrow> DateTimeFormatOptions \<Rightarrow> js_error + string" where
  "toLocaleString P now locales options =
     bind_sum (createDateTimeFormat P Date_toLocaleString locales options) (\<lambda>f. Inr (f now))"

definition toLocaleDateString ::
  "host \<Rightarrow> int \<Rightarrow> string option \<Rightarrow> DateTimeFormatOptions \<Rightarrow> js_error + string" where
  "toLocaleDateString P now locales options =
     bind_sum (createDateTimeFormat P Date_toLocaleDateString locales options) (\<lambda>f. Inr (f now))"

subsection \<open>The clock\<close>

text \<open>\<^verbatim>\<open>new Date()\<close> reads the wall clock. The world holds every reading the clock will
  give and the number of readings taken so far.\<close>

record world =
  clock :: "nat \<Rightarrow> int"
  samples :: nat

definition new_Date :: "world \<Rightarrow> int \<times> world" where
  "new_Date w = (clock w (samples w), w\<lparr>samples := Suc (samples w)\<rparr>)"

section \<open>The server\<close>

subsection \<open>Listing the tools\<close>

record ParameterSchema =
  type :: string
  description :: string
  enum :: "string list option"
  default :: "string option"

record InputSchema =
  schema_type :: string
  properties :: "(string \<times> ParameterSchema) list"
  additionalProperties :: bool

record Tool =
  name :: string
  tool_description :: string
  inputSchema :: InputSchema

definition ListToolsRequest_handler :: "Tool list" where
  "ListToolsRequest_handler =
     [\<lparr>name = ''get_current_time'',
       tool_description = ''Get the current date and time'',
       inputSchema =
         \<lparr>schema_type = ''object'',
          properties =
            [(''timezone'',
              \<lparr>type = ''string'',
               description = ''Timezone (optional, defaults to system timezone)'',
               enum = None,
               default = Some ''system''\<rparr>),
             (''format'',
              \<lparr>type = ''string'',
               description =
                 ''Time format: '' @ [CHR 0x22] @ ''12hour'' @ [CHR 0x22] @ '', ''
                   @ [CHR 0x22] @ ''24hour'' @ [CHR 0x22] @ '', or ''
                   @ [CHR 0x22] @ ''iso'' @ [CHR 0x22] @ '' (default: 12hour)'',
               enum = Some [''12hour'', ''24hour'', ''iso''],
               default = Some ''12hour''\<rparr>)],
          additionalProperties = False\<rparr>\<rparr>,
      \<lparr>name = ''get_time_info'',
       tool_description =
         ''Get detailed time information including timezone, day of week, etc.'',
       inputSchema =
         \<lparr>schema_type = ''object'',
          properties =
            [(''timezone'',
              \<lparr>type = ''string'',
               description = ''Timezone (optional, defaults to system timezone)'',
               enum = None,
               default = Some ''system''\<rparr>)],
          additionalProperties = False\<rparr>\<rparr>]"

text \<open>The default a descriptor of the tool list declares for a parameter.\<close>

definition declared_default :: "string \<Rightarrow> string \<Rightarrow> string option" where
  "declared_default tool parameter =
     Option.bind (find (\<lambda>t. name t = tool) ListToolsRequest_handler)
       (\<lambda>t. Option.bind (map_of (properties (inputSchema t)) parameter) default)"

subsection \<open>Calling a tool\<close>

record TextContent =
  item_type :: string
  item_text :: string

text \<open>\<open>isError = None\<close>: the property is absent, as in every result of a tool that
  succeeded.\<close>

record CallToolResult =
  content :: "TextContent list"
  isError :: "bool option"

text \<open>\<^verbatim>\<open>request.params.arguments\<close>: absent, or an object with its own properties.\<close>

type_synonym arguments = "(string \<rightharpoonup> jsval) option"

text \<open>\<^verbatim>\<open>args?.key\<close>.\<close>

definition optional_member :: "arguments \<Rightarrow> string \<Rightarrow> jsval" where
  "optional_member args key =
     (case args of
        None \<Rightarrow> JUndefined
      | Some obj \<Rightarrow> (case obj key of None \<Rightarrow> JUndefined | Some v \<Rightarrow> v))"

text \<open>The branch \<^verbatim>\<open>timezone !== 'system'\<close> of \<^verbatim>\<open>get_current_time\<close> and its alternative.\<close>

definition timeString :: "host \<Rightarrow> jsval \<Rightarrow> jsval \<Rightarrow> int \<Rightarrow> js_error + string" where
  "timeString P timezone format now =
     (if timezone \<noteq> JStr ''system'' then
        toLocaleString P now (Some ''en-US'')
          \<lparr>timeZone = Some timezone,
           weekday = None,
           year = Some ''numeric'',
           month = Some ''2-digit'',
           day = Some ''2-digit'',
           hour = Some ''2-digit'',
           minute = Some ''2-digit'',
           second = Some ''2-digit'',
           hour12 = Some (format = JStr ''12hour''),
           timeZoneName = None\<rparr>
      else if format = JStr ''iso'' then Inr (toISOString P now)
      else if format = JStr ''24hour'' then
        toLocaleString P now (Some ''en-US'') (no_options\<lparr>hour12 := Some False\<rparr>)
      else toLocaleString P now (Some ''en-US'') (no_options\<lparr>hour12 := Some True\<rparr>))"

definition get_current_time :: "host \<Rightarrow> arguments \<Rightarrow> world \<Rightarrow> (js_error + CallToolResult) \<times> world" where
  "get_current_time P args w =
     (let timezone = js_or (optional_member args ''timezone'') (JStr ''system'');
          format = js_or (optional_member args ''format'') (JStr ''12hour'');
          (now, w') = new_Date w
      in (bind_sum (timeString P timezone format now)
            (\<lambda>s. Inr \<lparr>content = [\<lparr>item_type = ''text'', item_text = ''Current time: '' @ s\<rparr>],
                       isError = None\<rparr>),
          w'))"

text \<open>The object literal \<^verbatim>\<open>timeInfo\<close>, its properties in the order they are written.\<close>

definition timeInfo :: "host \<Rightarrow> int \<Rightarrow> js_error + (string \<times> jsval) list" where
  "timeInfo P now =
     bind_sum (toLocaleString P now None no_options) (\<lambda>local_time.
     bind_sum (toLocaleDateString P now (Some ''en-US'') (no_options\<lparr>weekday := Some ''long''\<rparr>))
       (\<lambda>day_of_week.
     bind_sum (toLocaleDateString P now (Some ''en-US'') no_options) (\<lambda>date.
       Inr [(''timestamp'', JInt now),
            (''iso_string'', JStr (toISOString P now)),
            (''local_time'', JStr local_time),
            (''day_of_week'', JStr day_of_week),
            (''date'', JStr date),
            (''year'', JInt (getFullYear P now)),
            (''month'', JInt (getMonth P now + 1)),
            (''day'', JInt (getDate P now)),
            (''hour'', JInt (getHours P now)),
            (''minute'', JInt (getMinutes P now)),
            (''second'', JInt (getSeconds P now)),
            (''timezone_offset'', JInt (getTimezoneOffset P now))])))"

text \<open>\<^verbatim>\<open>obj.key = v\<close>: an existing property keeps its place, a new one is added last.\<close>

fun set_property :: "(string \<times> jsval) list \<Rightarrow> string \<Rightarrow> jsval \<Rightarrow> (string \<times> jsval) list" where
  "set_property [] key v = [(key, v)]"
| "set_property ((k, x) # kvs) key v =
     (if k = key then (k, v) # kvs else (k, x) # set_property kvs key v)"

text \<open>The block \<^verbatim>\<open>if (timezone !== 'system') { try { ... } catch (error) { ... } }\<close>. The
  formatter is created before any property is set, so a failure leaves \<open>info\<close> as it
  was. The \<^verbatim>\<open>catch\<close> clause builds \<^verbatim>\<open>`Invalid timezone: ${timezone}`\<close>, which throws again
  for a \<open>timezone\<close> that has no string: that error leaves the block.\<close>

definition add_timezone_fields ::
  "host \<Rightarrow> jsval \<Rightarrow> int \<Rightarrow> (string \<times> jsval) list \<Rightarrow> js_error + (string \<times> jsval) list" where
  "add_timezone_fields P timezone now info =
     (if timezone \<noteq> JStr ''system'' then
        (case createDateTimeFormat P Intl_DateTimeFormat (Some ''en-US'')
                \<lparr>timeZone = Some timezone,
                 weekday = None,
                 year = Some ''numeric'',
                 month = Some ''2-digit'',
                 day = Some ''2-digit'',
                 hour = Some ''2-digit'',
                 minute = Some ''2-digit'',
                 second = Some ''2-digit'',
                 hour12 = None,
                 timeZoneName = Some ''short''\<rparr> of
           Inr tzFormatter \<Rightarrow>
             Inr (set_property (set_property info ''timezone_time'' (JStr (tzFormatter now)))
                    ''requested_timezone'' timezone)
         | Inl error \<Rightarrow>
             bind_sum (ToString_throw P timezone) (\<lambda>s.
               Inr (set_property info ''timezone_error'' (JStr (''Invalid timezone: '' @ s)))))
      else Inr info)"

definition get_time_info :: "host \<Rightarrow> arguments \<Rightarrow> world \<Rightarrow> (js_error + CallToolResult) \<times> world" where
  "get_time_info P args w =
     (let timezone = js_or (optional_member args ''timezone'') (JStr ''system'');
          (now, w') = new_Date w
      in (bind_sum (timeInfo P now) (\<lambda>info.
          bind_sum (add_timezone_fields P timezone now info) (\<lambda>info.
            Inr \<lparr>content = [\<lparr>item_type = ''text'', item_text = JSON_stringify info\<rparr>],
                 isError = None\<rparr>)),
          w'))"

text \<open>The body of \<^verbatim>\<open>try\<close>: the two tools by name, else the throw.\<close>

definition try_block :: "host \<Rightarrow> string \<Rightarrow> arguments \<Rightarrow> world \<Rightarrow> (js_error + CallToolResult) \<times> world" where
  "try_block P tool args w =
     (if tool = ''get_current_time'' then get_current_time P args w
      else if tool = ''get_time_info'' then get_time_info P args w
      else (Inl (Error (''Unknown tool: '' @ tool)), w))"

text \<open>The \<^verbatim>\<open>catch\<close> clause of the handler.\<close>

definition catch_block :: "js_error \<Rightarrow> CallToolResult" where
  "catch_block error =
     \<lparr>content =
        [\<lparr>item_type = ''text'',
          item_text =
            ''Error: '' @ (if instanceof_Error error then message error else String_error error)\<rparr>],
      isError = Some True\<rparr>"

definition CallToolRequest_handler :: "host \<Rightarrow> string \<Rightarrow> arguments \<Rightarrow> world \<Rightarrow> CallToolResult \<times> world" where
  "CallToolRequest_handler P tool args w =
     (case try_block P tool args w of
        (Inr result, w') \<Rightarrow> (result, w')
      | (Inl error, w') \<Rightarrow> (catch_block error, w'))"

subsection \<open>The server that writes a log\<close>

text \<open>
  The second \<^verbatim>\<open>index.ts\<close> is the same server with calls of \<^verbatim>\<open>log\<close> added. \<^verbatim>\<open>log\<close> reads the
  clock for the time stamp of its line (\<^verbatim>\<open>new Date().toISOString()\<close>) and writes the line,
  and the data if any, to the standard error stream. That stream is no part of a
  response and the model does not hold it; the reading of the clock it does hold. The
  line is built by the caller, before the call: a template literal that throws leaves no
  line and no reading.
\<close>

definition log :: "string \<Rightarrow> string \<Rightarrow> world \<Rightarrow> world" where
  "log level line w = snd (new_Date w)"

definition get_current_time_log ::
  "host \<Rightarrow> arguments \<Rightarrow> world \<Rightarrow> (js_error + CallToolResult) \<times> world" where
  "get_current_time_log P args w =
     (let timezone = js_or (optional_member args ''timezone'') (JStr ''system'');
          format = js_or (optional_member args ''format'') (JStr ''12hour'')
      in case bind_sum (ToString_throw P timezone) (\<lambda>tz.
              bind_sum (ToString_throw P format) (\<lambda>fmt.
                Inr (''Getting current time - timezone: '' @ tz @ '', format: '' @ fmt))) of
           Inl error \<Rightarrow> (Inl error, w)
         | Inr line \<Rightarrow>
             (let (now, w') = new_Date (log ''INFO'' line w)
              in case timeString P timezone format now of
                   Inl error \<Rightarrow> (Inl error, w')
                 | Inr s \<Rightarrow>
                     (Inr \<lparr>content =
                             [\<lparr>item_type = ''text'', item_text = ''Current time: '' @ s\<rparr>],
                           isError = None\<rparr>,
                      log ''INFO'' (''Returning time: '' @ s) w')))"

definition get_time_info_log ::
  "host \<Rightarrow> arguments \<Rightarrow> world \<Rightarrow> (js_error + CallToolResult) \<times> world" where
  "get_time_info_log P args w =
     (let timezone = js_or (optional_member args ''timezone'') (JStr ''system'')
      in case bind_sum (ToString_throw P timezone) (\<lambda>tz.
                Inr (''Getting detailed time info - timezone: '' @ tz)) of
           Inl error \<Rightarrow> (Inl error, w)
         | Inr line \<Rightarrow>
             (let (now, w') = new_Date (log ''INFO'' line w)
              in case bind_sum (timeInfo P now) (add_timezone_fields P timezone now) of
                   Inl error \<Rightarrow> (Inl error, w')
                 | Inr info \<Rightarrow>
                     (Inr \<lparr>content = [\<lparr>item_type = ''text'', item_text = JSON_stringify info\<rparr>],
                           isError = None\<rparr>,
                      log ''INFO'' ''Returning detailed time info'' w')))"

definition try_block_log ::
  "host \<Rightarrow> string \<Rightarrow> arguments \<Rightarrow> world \<Rightarrow> (js_error + CallToolResult) \<times> world" where
  "try_block_log P tool args w =
     (if tool = ''get_current_time'' then get_current_time_log P args w
      else if tool = ''get_time_info'' then get_time_info_log P args w
      else (Inl (Error (''Unknown tool: '' @ tool)), w))"

text \<open>The first line is logged before \<^verbatim>\<open>try\<close>, the last one in the \<^verbatim>\<open>catch\<close> clause.\<close>

definition CallToolRequest_handler_log ::
  "host \<Rightarrow> string \<Rightarrow> arguments \<Rightarrow> world \<Rightarrow> CallToolResult \<times> world" where
  "CallToolRequest_handler_log P tool args w =
     (case try_block_log P tool args (log ''INFO'' (''Received tool call: '' @ tool) w) of
        (Inr result, w') \<Rightarrow> (result, w')
      | (Inl error, w') \<Rightarrow>
          (catch_block error, log ''ERROR'' (''Tool execution failed: '' @ tool) w'))"

section \<open>The specification's wording of two results\<close>


text \<open>The record of \<^verbatim>\<open>get_time_info\<close> as the specification words it: \<^verbatim>\<open>local_time\<close> and
  \<^verbatim>\<open>date\<close> both in the default locale of the host.\<close>

definition spec_timeInfo :: "host \<Rightarrow> int \<Rightarrow> (string \<times> jsval) list" where
  "spec_timeInfo P now =
     [(''timestamp'', JInt now),
      (''iso_string'', JStr (toISOString P now)),
      (''local_time'', JStr (formatDate P Date_toLocaleString None no_options now)),
      (''day_of_week'',
         JStr (formatDate P Date_toLocaleDateString (Some ''en-US'')
                 (no_options\<lparr>weekday := Some ''long''\<rparr>) now)),
      (''date'', JStr (formatDate P Date_toLocaleDateString None no_options now)),
      (''year'', JInt (getFullYear P now)),
      (''month'', JInt (getMonth P now + 1)),
      (''day'', JInt (getDate P now)),
      (''hour'', JInt (getHours P now)),
      (''minute'', JInt (getMinutes P now)),
      (''second'', JInt (getSeconds P now)),
      (''timezone_offset'', JInt (getTimezoneOffset P now))]"

section \<open>A host and a clock for the examples\<close>

text \<open>
  The examples below run on one host at one instant: noon of 1 January 1970 (UTC), on a
  machine whose time zone is UTC and whose default locale is German. \<open>example_host\<close>
  renders that instant as such a machine does; it knows the zones \<^verbatim>\<open>UTC\<close> and
  \<^verbatim>\<open>Asia/Tokyo\<close> and rejects every other identifier, the empty one included. Its error
  messages are worded as Node.js words them.
\<close>

definition example_message :: "jsval \<Rightarrow> string" where
  "example_message v =
     ''Invalid time zone specified: '' @
       (case v of
          JObj kvs \<Rightarrow> ''#<Object>''
        | JArr xs \<Rightarrow> ''[object Array]''
        | _ \<Rightarrow> (case ToString v of Some s \<Rightarrow> s | None \<Rightarrow> []))"

definition example_format :: "date_api \<Rightarrow> string option \<Rightarrow> DateTimeFormatOptions \<Rightarrow> int \<Rightarrow> string" where
  "example_format api locales options t =
     (if api = Date_toLocaleDateString then
        (if weekday options = Some ''long'' then ''Thursday''
         else if locales = Some ''en-US'' then ''1/1/1970''
         else ''1.1.1970'')
      else if timeZone options = Some (JStr ''Asia/Tokyo'') then
        (if api = Intl_DateTimeFormat then ''01/01/1970, 09:00:00 PM GMT+9''
         else if hour12 options = Some True then ''01/01/1970, 09:00:00 PM''
         else ''01/01/1970, 21:00:00'')
      else if locales = Some ''en-US'' then
        (if hour12 options = Some False then ''1/1/1970, 12:00:00''
         else ''1/1/1970, 12:00:00 PM'')
      else ''1.1.1970, 12:00:00'')"

definition example_host :: host where
  "example_host =
     \<lparr>validTimeZone = (\<lambda>s. s = ''UTC'' \<or> s = ''Asia/Tokyo''),
      invalidTimeZoneMessage = example_message,
      cannotConvertMessage = (\<lambda>v. ''Cannot convert object to primitive value''),
      formatDate = example_format,
      toISOString = (\<lambda>t. ''1970-01-01T12:00:00.000Z''),
      getFullYear = (\<lambda>t. 1970),
      getMonth = (\<lambda>t. 0),
      getDate = (\<lambda>t. 1),
      getHours = (\<lambda>t. 12),
      getMinutes = (\<lambda>t. 0),
      getSeconds = (\<lambda>t. 0),
      getTimezoneOffset = (\<lambda>t. 0)\<rparr>"

definition noon :: world where
  "noon = \<lparr>clock = (\<lambda>n. 43200000), samples = 0\<rparr>"

definition noon_after :: world where
  "noon_after = \<lparr>clock = (\<lambda>n. 43200000), samples = 1\<rparr>"

definition no_arguments :: arguments where
  "no_arguments = Some Map.empty"

definition noon_after4 :: world where
  "noon_after4 = \<lparr>clock = (\<lambda>n. 43200000), samples = 4\<rparr>"

text \<open>The object \<^verbatim>\<open>{"toString": "x"}\<close>.\<close>

definition no_string :: jsval where
  "no_string = JObj [(''toString'', JStr ''x'')]"

definition timezone_only :: "jsval \<Rightarrow> arguments" where
  "timezone_only tz = Some [''timezone'' \<mapsto> tz]"

definition timezone_format :: "jsval \<Rightarrow> jsval \<Rightarrow> arguments" where
  "timezone_format tz fmt = Some [''timezone'' \<mapsto> tz, ''format'' \<mapsto> fmt]"

definition timezone_and_more :: "jsval \<Rightarrow> jsval \<Rightarrow> arguments" where
  "timezone_and_more tz x = Some [''timezone'' \<mapsto> tz, ''verbose'' \<mapsto> x]"

definition text_result :: "string \<Rightarrow> CallToolResult" where
  "text_result s = \<lparr>content = [\<lparr>item_type = ''text'', item_text = s\<rparr>], isError = None\<rparr>"

definition error_result :: "string \<Rightarrow> CallToolResult" where
  "error_result s = \<lparr>content = [\<lparr>item_type = ''text'', item_text = s\<rparr>], isError = Some True\<rparr>"

section \<open>Facts about the platform calls and the handlers\<close>

lemma toLocaleString_plain:
  "timeZone options = None \<Longrightarrow>
   toLocaleString P now locales options = Inr (formatDate P Date_toLocaleString locales options now)"
  by (simp add: toLocaleString_def createDateTimeFormat_def bind_sum_def)

lemma toLocaleDateString_plain:
  "timeZone options = None \<Longrightarrow>
   toLocaleDateString P now locales options =
     Inr (formatDate P Date_toLocaleDateString locales options now)"
  by (simp add: toLocaleDateString_def createDateTimeFormat_def bind_sum_def)

lemma createDateTimeFormat_zone:
  "timeZone options = Some tz \<Longrightarrow>
   createDateTimeFormat P api locales options =
     (case ToString tz of
        None \<Rightarrow> Inl (TypeError (cannotConvertMessage P tz))
      | Some zone \<Rightarrow>
          if validTimeZone P zone then Inr (formatDate P api locales options)
          else Inl (RangeError (invalidTimeZoneMessage P tz)))"
  by (simp add: createDateTimeFormat_def ToString_throw_def bind_sum_def split: option.splits)

lemma toLocaleString_zone:
  "timeZone options = Some tz \<Longrightarrow>
   toLocaleString P now locales options =
     (case ToString tz of
        None \<Rightarrow> Inl (TypeError (cannotConvertMessage P tz))
      | Some zone \<Rightarrow>
          if validTimeZone P zone then Inr (formatDate P Date_toLocaleString locales options now)
          else Inl (RangeError (invalidTimeZoneMessage P tz)))"
  by (simp add: toLocaleString_def createDateTimeFormat_zone bind_sum_def split: option.splits)

lemma timeInfo_Inr:
  "timeInfo P now =
     Inr [(''timestamp'', JInt now),
          (''iso_string'', JStr (toISOString P now)),
          (''local_time'', JStr (formatDate P Date_toLocaleString None no_options now)),
          (''day_of_week'',
             JStr (formatDate P Date_toLocaleDateString (Some ''en-US'')
                     (no_options\<lparr>weekday := Some ''long''\<rparr>) now)),
          (''date'', JStr (formatDate P Date_toLocaleDateString (Some ''en-US'') no_options now)),
          (''year'', JInt (getFullYear P now)),
          (''month'', JInt (getMonth P now + 1)),
          (''day'', JInt (getDate P now)),
          (''hour'', JInt (getHours P now)),
          (''minute'', JInt (getMinutes P now)),
          (''second'', JInt (getSeconds P now)),
          (''timezone_offset'', JInt (getTimezoneOffset P now))]"
proof -
  have z: "timeZone no_options = None" "timeZone (no_options\<lparr>weekday := Some ''long''\<rparr>) = None"
    by (simp_all add: no_options_def)
  show ?thesis
    unfolding timeInfo_def
    by (simp only: toLocaleString_plain [OF z(1)] toLocaleDateString_plain [OF z(1)]
          toLocaleDateString_plain [OF z(2)] bind_sum_def sum.case)
qed

lemma timeInfo_keys:
  assumes "timeInfo P now = Inr info"
  shows "map fst info =
     [''timestamp'', ''iso_string'', ''local_time'', ''day_of_week'', ''date'', ''year'',
      ''month'', ''day'', ''hour'', ''minute'', ''second'', ''timezone_offset'']"
  using assms unfolding timeInfo_Inr by auto

lemma set_property_fresh:
  "key \<notin> fst ` set kvs \<Longrightarrow> set_property kvs key v = kvs @ [(key, v)]"
  by (induction kvs) auto

lemma js_or_optional_member:
  "js_or (optional_member args key) (JStr d) =
     (case args of
        None \<Rightarrow> JStr d
      | Some obj \<Rightarrow>
          (case obj key of None \<Rightarrow> JStr d | Some v \<Rightarrow> if ToBoolean v then v else JStr d))"
  by (simp add: js_or_def optional_member_def split: option.splits)

lemma timeString_zone:
  assumes "timezone \<noteq> JStr ''system''"
  shows "timeString P timezone format now =
     (case ToString timezone of
        None \<Rightarrow> Inl (TypeError (cannotConvertMessage P timezone))
      | Some zone \<Rightarrow>
          if validTimeZone P zone then
            Inr (formatDate P Date_toLocaleString (Some ''en-US'')
              \<lparr>timeZone = Some timezone, weekday = None, year = Some ''numeric'',
               month = Some ''2-digit'', day = Some ''2-digit'', hour = Some ''2-digit'',
               minute = Some ''2-digit'', second = Some ''2-digit'',
               hour12 = Some (format = JStr ''12hour''), timeZoneName = None\<rparr> now)
          else Inl (RangeError (invalidTimeZoneMessage P timezone)))"
  using assms by (simp add: timeString_def toLocaleString_zone)

lemma timeString_system:
  "timeString P (JStr ''system'') format now =
     Inr (if format = JStr ''iso'' then toISOString P now
          else if format = JStr ''24hour'' then
            formatDate P Date_toLocaleString (Some ''en-US'') (no_options\<lparr>hour12 := Some False\<rparr>) now
          else formatDate P Date_toLocaleString (Some ''en-US'') (no_options\<lparr>hour12 := Some True\<rparr>) now)"
  by (simp add: timeString_def toLocaleString_plain no_options_def)

lemma add_timezone_fields_system:
  "add_timezone_fields P (JStr ''system'') now info = Inr info"
  by (simp add: add_timezone_fields_def)

lemma add_timezone_fields_zone:
  assumes "timezone \<noteq> JStr ''system''"
  shows "add_timezone_fields P timezone now info =
     (case ToString timezone of
        None \<Rightarrow> Inl (TypeError (cannotConvertMessage P timezone))
      | Some zone \<Rightarrow>
          Inr (if validTimeZone P zone then
                 set_property
                   (set_property info ''timezone_time''
                      (JStr (formatDate P Intl_DateTimeFormat (Some ''en-US'')
                         \<lparr>timeZone = Some timezone, weekday = None, year = Some ''numeric'',
                          month = Some ''2-digit'', day = Some ''2-digit'', hour = Some ''2-digit'',
                          minute = Some ''2-digit'', second = Some ''2-digit'',
                          hour12 = None, timeZoneName = Some ''short''\<rparr> now)))
                   ''requested_timezone'' timezone
               else set_property info ''timezone_error'' (JStr (''Invalid timezone: '' @ zone))))"
  using assms
  by (simp add: add_timezone_fields_def createDateTimeFormat_zone ToString_throw_def bind_sum_def
        split: option.splits)

lemma add_timezone_fields_appends:
  assumes "timeInfo P t = Inr info"
  shows "add_timezone_fields P timezone now info =
     (if timezone = JStr ''system'' then Inr info
      else case ToString timezone of
        None \<Rightarrow> Inl (TypeError (cannotConvertMessage P timezone))
      | Some zone \<Rightarrow>
          Inr (info @
               (if validTimeZone P zone then
                  [(''timezone_time'',
                      JStr (formatDate P Intl_DateTimeFormat (Some ''en-US'')
                         \<lparr>timeZone = Some timezone, weekday = None, year = Some ''numeric'',
                          month = Some ''2-digit'', day = Some ''2-digit'', hour = Some ''2-digit'',
                          minute = Some ''2-digit'', second = Some ''2-digit'',
                          hour12 = None, timeZoneName = Some ''short''\<rparr> now)),
                   (''requested_timezone'', timezone)]
                else [(''timezone_error'', JStr (''Invalid timezone: '' @ zone))])))"
proof -
  have keys: "''timezone_error'' \<notin> fst ` set info" "''timezone_time'' \<notin> fst ` set info"
    "''requested_timezone'' \<notin> fst ` set info"
    using timeInfo_keys [OF assms] by (simp_all flip: set_map)
  then have "''requested_timezone'' \<notin> fst ` set (info @ [(''timezone_time'', v)])" for v
    by simp
  with keys show ?thesis
    by (simp add: add_timezone_fields_system add_timezone_fields_zone set_property_fresh
          split: option.splits)
qed

lemma get_current_time_eq:
  "get_current_time P args w =
     (bind_sum
        (timeString P (js_or (optional_member args ''timezone'') (JStr ''system''))
           (js_or (optional_member args ''format'') (JStr ''12hour'')) (clock w (samples w)))
        (\<lambda>s. Inr \<lparr>content = [\<lparr>item_type = ''text'', item_text = ''Current time: '' @ s\<rparr>],
                   isError = None\<rparr>),
      w\<lparr>samples := Suc (samples w)\<rparr>)"
  by (simp add: get_current_time_def new_Date_def)

lemma get_time_info_eq:
  "get_time_info P args w =
     (bind_sum (timeInfo P (clock w (samples w))) (\<lambda>info.
      bind_sum
        (add_timezone_fields P (js_or (optional_member args ''timezone'') (JStr ''system''))
           (clock w (samples w)) info) (\<lambda>info.
        Inr \<lparr>content = [\<lparr>item_type = ''text'', item_text = JSON_stringify info\<rparr>],
             isError = None\<rparr>)),
      w\<lparr>samples := Suc (samples w)\<rparr>)"
  by (simp add: get_time_info_def new_Date_def)

lemma try_block_unknown:
  "tool \<noteq> ''get_current_time'' \<Longrightarrow> tool \<noteq> ''get_time_info'' \<Longrightarrow>
   try_block P tool args w = (Inl (Error (''Unknown tool: '' @ tool)), w)"
  by (simp add: try_block_def)

lemma try_block_success_shape:
  assumes "fst (try_block P tool args w) = Inr r"
  shows "\<exists>s. r = \<lparr>content = [\<lparr>item_type = ''text'', item_text = s\<rparr>], isError = None\<rparr>"
proof -
  consider (a) "tool = ''get_current_time''"
    | (b) "tool \<noteq> ''get_current_time''" "tool = ''get_time_info''"
    | (c) "tool \<noteq> ''get_current_time''" "tool \<noteq> ''get_time_info''"
    by blast
  then show ?thesis
  proof cases
    case a
    with assms show ?thesis
      by (auto simp: try_block_def get_current_time_eq bind_sum_def split: sum.splits)
  next
    case b
    with assms show ?thesis
      by (auto simp: try_block_def get_time_info_eq bind_sum_def split: sum.splits)
  next
    case c
    with assms show ?thesis
      by (simp add: try_block_def)
  qed
qed

lemma handler_fst:
  "fst (CallToolRequest_handler P tool args w) =
     (case fst (try_block P tool args w) of Inr r \<Rightarrow> r | Inl e \<Rightarrow> catch_block e)"
  by (cases "try_block P tool args w") (auto simp: CallToolRequest_handler_def split: sum.splits)

lemma handler_snd:
  "snd (CallToolRequest_handler P tool args w) = snd (try_block P tool args w)"
  by (cases "try_block P tool args w") (auto simp: CallToolRequest_handler_def split: sum.splits)

lemma catch_block_text:
  "catch_block e =
     \<lparr>content = [\<lparr>item_type = ''text'', item_text = ''Error: '' @ message e\<rparr>], isError = Some True\<rparr>"
  by (cases e) (simp_all add: catch_block_def)

lemma tool_names: "name ` set ListToolsRequest_handler = {''get_current_time'', ''get_time_info''}"
  by (simp add: ListToolsRequest_handler_def)

lemma declared_defaults:
  "declared_default ''get_current_time'' ''timezone'' = Some ''system''"
  "declared_default ''get_current_time'' ''format'' = Some ''12hour''"
  "declared_default ''get_time_info'' ''timezone'' = Some ''system''"
  by (simp_all add: declared_default_def ListToolsRequest_handler_def)

lemma timeString_never_Error: "timeString P timezone format now \<noteq> Inl (Error m)"
proof (cases "timezone = JStr ''system''")
  case True
  then show ?thesis by (simp add: timeString_system)
next
  case False
  then show ?thesis by (simp add: timeString_zone split: option.splits)
qed

lemma add_timezone_fields_never_Error:
  "add_timezone_fields P timezone now info \<noteq> Inl (Error m)"
proof (cases "timezone = JStr ''system''")
  case True
  then show ?thesis by (simp add: add_timezone_fields_system)
next
  case False
  then show ?thesis by (simp add: add_timezone_fields_zone split: option.splits)
qed

subsection \<open>The server that writes a log\<close>

lemma log_eq: "log level line w = w\<lparr>samples := Suc (samples w)\<rparr>"
  by (simp add: log_def new_Date_def)

lemma handler_log_fst:
  "fst (CallToolRequest_handler_log P tool args w) =
     (case fst (try_block_log P tool args (w\<lparr>samples := Suc (samples w)\<rparr>)) of
        Inr r \<Rightarrow> r
      | Inl e \<Rightarrow> catch_block e)"
  by (cases "try_block_log P tool args (w\<lparr>samples := Suc (samples w)\<rparr>)")
    (auto simp: CallToolRequest_handler_log_def log_eq split: sum.splits)

lemma get_time_info_log_eq:
  "get_time_info_log P args w =
     (case ToString (js_or (optional_member args ''timezone'') (JStr ''system'')) of
        None \<Rightarrow>
          (Inl (TypeError (cannotConvertMessage P
                  (js_or (optional_member args ''timezone'') (JStr ''system'')))), w)
      | Some zone \<Rightarrow>
          (case fst (get_time_info P args (w\<lparr>samples := Suc (samples w)\<rparr>)) of
             Inl e \<Rightarrow> (Inl e, w\<lparr>samples := samples w + 2\<rparr>)
           | Inr r \<Rightarrow> (Inr r, w\<lparr>samples := samples w + 3\<rparr>)))"
  by (simp add: get_time_info_log_def get_time_info_eq ToString_throw_def bind_sum_def log_eq
        new_Date_def split: option.splits sum.splits)

lemma get_current_time_log_eq:
  "get_current_time_log P args w =
     (case ToString (js_or (optional_member args ''timezone'') (JStr ''system'')) of
        None \<Rightarrow>
          (Inl (TypeError (cannotConvertMessage P
                  (js_or (optional_member args ''timezone'') (JStr ''system'')))), w)
      | Some zone \<Rightarrow>
          (case ToString (js_or (optional_member args ''format'') (JStr ''12hour'')) of
             None \<Rightarrow>
               (Inl (TypeError (cannotConvertMessage P
                       (js_or (optional_member args ''format'') (JStr ''12hour'')))), w)
           | Some fmt \<Rightarrow>
               (case fst (get_current_time P args (w\<lparr>samples := Suc (samples w)\<rparr>)) of
                  Inl e \<Rightarrow> (Inl e, w\<lparr>samples := samples w + 2\<rparr>)
                | Inr r \<Rightarrow> (Inr r, w\<lparr>samples := samples w + 3\<rparr>))))"
  by (simp add: get_current_time_log_def get_current_time_eq ToString_throw_def bind_sum_def
        log_eq new_Date_def split: option.splits sum.splits)

lemma get_time_info_unconvertible:
  assumes "ToString (js_or (optional_member args ''timezone'') (JStr ''system'')) = None"
  shows "fst (get_time_info P args w) =
     Inl (TypeError (cannotConvertMessage P
            (js_or (optional_member args ''timezone'') (JStr ''system''))))"
proof -
  from assms have "js_or (optional_member args ''timezone'') (JStr ''system'') \<noteq> JStr ''system''"
    by auto
  with assms show ?thesis
    by (simp add: get_time_info_eq timeInfo_Inr bind_sum_def add_timezone_fields_zone)
qed

lemma get_current_time_unconvertible:
  assumes "ToString (js_or (optional_member args ''timezone'') (JStr ''system'')) = None"
  shows "fst (get_current_time P args w) =
     Inl (TypeError (cannotConvertMessage P
            (js_or (optional_member args ''timezone'') (JStr ''system''))))"
proof -
  from assms have "js_or (optional_member args ''timezone'') (JStr ''system'') \<noteq> JStr ''system''"
    by auto
  with assms show ?thesis
    by (simp add: get_current_time_eq bind_sum_def timeString_zone)
qed

lemma get_time_info_log_fst:
  "fst (get_time_info_log P args w) = fst (get_time_info P args (w\<lparr>samples := Suc (samples w)\<rparr>))"
  by (simp add: get_time_info_log_eq get_time_info_unconvertible split: option.splits sum.splits)

lemma get_current_time_log_fst:
  assumes "ToString (js_or (optional_member args ''format'') (JStr ''12hour'')) \<noteq> None \<or>
           ToString (js_or (optional_member args ''timezone'') (JStr ''system'')) = None"
  shows "fst (get_current_time_log P args w) =
         fst (get_current_time P args (w\<lparr>samples := Suc (samples w)\<rparr>))"
  using assms
  by (auto simp: get_current_time_log_eq get_current_time_unconvertible
        split: option.splits sum.splits)

lemma handler_log_get_time_info:
  "fst (CallToolRequest_handler_log P ''get_time_info'' args w) =
   fst (CallToolRequest_handler P ''get_time_info'' args (w\<lparr>samples := samples w + 2\<rparr>))"
  by (simp add: handler_log_fst handler_fst try_block_log_def try_block_def get_time_info_log_fst)

lemma handler_log_get_current_time:
  assumes "ToString (js_or (optional_member args ''format'') (JStr ''12hour'')) \<noteq> None \<or>
           ToString (js_or (optional_member args ''timezone'') (JStr ''system'')) = None"
  shows "fst (CallToolRequest_handler_log P ''get_current_time'' args w) =
         fst (CallToolRequest_handler P ''get_current_time'' args (w\<lparr>samples := samples w + 2\<rparr>))"
  using get_current_time_log_fst [OF assms]
  by (simp add: handler_log_fst handler_fst try_block_log_def try_block_def)

subsection \<open>The example host evaluated\<close>

lemma example_args [simp]:
  "optional_member (timezone_only tz) ''timezone'' = tz"
  "optional_member (timezone_only tz) ''format'' = JUndefined"
  "optional_member (timezone_format tz fmt) ''timezone'' = tz"
  "optional_member (timezone_format tz fmt) ''format'' = fmt"
  "optional_member (timezone_and_more tz x) ''timezone'' = tz"
  "optional_member (timezone_and_more tz x) ''format'' = JUndefined"
  "optional_member (timezone_and_more tz x) ''verbose'' = x"
  "optional_member (timezone_only tz) ''verbose'' = JUndefined"
  "optional_member no_arguments key = JUndefined"
  "optional_member None key = JUndefined"
  by (simp_all add: optional_member_def timezone_only_def timezone_format_def
        timezone_and_more_def no_arguments_def)

lemma example_host_sel [simp]:
  "validTimeZone example_host s = (s = ''UTC'' \<or> s = ''Asia/Tokyo'')"
  "invalidTimeZoneMessage example_host (JStr s) = ''Invalid time zone specified: '' @ s"
  "cannotConvertMessage example_host v = ''Cannot convert object to primitive value''"
  "formatDate example_host = example_format"
  "toISOString example_host t = ''1970-01-01T12:00:00.000Z''"
  "getFullYear example_host t = 1970"
  "getMonth example_host t = 0"
  "getDate example_host t = 1"
  "getHours example_host t = 12"
  "getMinutes example_host t = 0"
  "getSeconds example_host t = 0"
  "getTimezoneOffset example_host t = 0"
  by (simp_all add: example_host_def example_message_def)

lemma noon_sel [simp]:
  "clock noon n = 43200000" "samples noon = 0" "noon\<lparr>samples := Suc 0\<rparr> = noon_after"
  "noon\<lparr>samples := 4\<rparr> = noon_after4" "clock (noon\<lparr>samples := k\<rparr>) n = 43200000"
  "samples noon_after = 1" "clock noon_after n = 43200000"
  by (simp_all add: noon_def noon_after_def noon_after4_def)

lemma no_string_sel [simp]:
  "ToString no_string = None" "ToBoolean no_string" "no_string \<noteq> JStr s"
  by (simp_all add: no_string_def)

lemma example_numbers [simp]:
  "JInt 43200000 = JNum ''43200000''" "JInt 1970 = JNum ''1970''" "JInt 12 = JNum ''12''"
  "JInt 1 = JNum ''1''" "JInt 0 = JNum ''0''"
  by (simp_all add: JInt_def Number_toString_def)

lemma example_info:
  "timeInfo example_host 43200000 =
     Inr [(''timestamp'', JNum ''43200000''),
          (''iso_string'', JStr ''1970-01-01T12:00:00.000Z''),
          (''local_time'', JStr ''1.1.1970, 12:00:00''),
          (''day_of_week'', JStr ''Thursday''),
          (''date'', JStr ''1/1/1970''),
          (''year'', JNum ''1970''),
          (''month'', JNum ''1''),
          (''day'', JNum ''1''),
          (''hour'', JNum ''12''),
          (''minute'', JNum ''0''),
          (''second'', JNum ''0''),
          (''timezone_offset'', JNum ''0'')]"
  by (simp add: timeInfo_Inr example_format_def no_options_def)

lemma example_invalid_zone:
  "fst (try_block example_host ''get_current_time'' (timezone_only (JStr ''Not/ARealZone'')) noon) =
     Inl (RangeError ''Invalid time zone specified: Not/ARealZone'')"
  by (simp add: try_block_def get_current_time_eq timeString_zone js_or_def bind_sum_def)

section \<open>The claims\<close>

text \<open>
  C1 (amended). An invocation whose \<^verbatim>\<open>timezone\<close> argument is truthy (so it is not replaced
  by the default), is not \<^verbatim>\<open>system\<close>, has a string, and whose string the platform
  rejects as a time zone. \<^verbatim>\<open>get_current_time\<close> lets the platform's \<^verbatim>\<open>RangeError\<close> leave the
  body of \<^verbatim>\<open>try\<close>, and the \<^verbatim>\<open>catch\<close> clause of the handler answers with \<open>isError = true\<close>
  and \<^verbatim>\<open>Error: \<close> followed by the platform's message. \<^verbatim>\<open>get_time_info\<close> throws nothing and
  answers without \<open>isError\<close>, with the record of the instant to which the one field
  \<^verbatim>\<open>timezone_error\<close>, of value \<^verbatim>\<open>Invalid timezone: \<close> followed by the string of the
  argument, is added last; the record has no field \<^verbatim>\<open>timezone_time\<close>. The server that
  writes a log answers alike, from its third reading of the clock; its
  \<^verbatim>\<open>get_current_time\<close> fails with the \<^verbatim>\<open>TypeError\<close> of the log line instead when \<^verbatim>\<open>format\<close>
  has no string.
\<close>

theorem invalid_timezone_asymmetry:
  fixes args :: arguments
  defines "fmt \<equiv> js_or (optional_member args ''format'') (JStr ''12hour'')"
  assumes "optional_member args ''timezone'' = tz"
    and "ToBoolean tz"
    and "tz \<noteq> JStr ''system''"
    and "ToString tz = Some zone"
    and "\<not> validTimeZone P zone"
  shows "fst (try_block P ''get_current_time'' args w) =
           Inl (RangeError (invalidTimeZoneMessage P tz)) \<and>
         fst (CallToolRequest_handler P ''get_current_time'' args w) =
           error_result (''Error: '' @ invalidTimeZoneMessage P tz) \<and>
         fst (CallToolRequest_handler_log P ''get_current_time'' args w) =
           error_result
             (''Error: '' @
                (case ToString fmt of
                   None \<Rightarrow> cannotConvertMessage P fmt
                 | Some f \<Rightarrow> invalidTimeZoneMessage P tz)) \<and>
         (\<exists>info.
            timeInfo P (clock w (samples w)) = Inr info \<and>
            ''timezone_time'' \<notin>
              fst ` set (info @ [(''timezone_error'', JStr (''Invalid timezone: '' @ zone))]) \<and>
            fst (try_block P ''get_time_info'' args w) =
              Inr (text_result
                     (JSON_stringify
                        (info @ [(''timezone_error'', JStr (''Invalid timezone: '' @ zone))]))) \<and>
            fst (CallToolRequest_handler P ''get_time_info'' args w) =
              text_result
                (JSON_stringify
                   (info @ [(''timezone_error'', JStr (''Invalid timezone: '' @ zone))]))) \<and>
         (\<exists>info.
            timeInfo P (clock w (samples w + 2)) = Inr info \<and>
            fst (CallToolRequest_handler_log P ''get_time_info'' args w) =
              text_result
                (JSON_stringify
                   (info @ [(''timezone_error'', JStr (''Invalid timezone: '' @ zone))])))"
proof -
  have tz: "js_or (optional_member args ''timezone'') (JStr ''system'') = tz"
    using assms(2,3) by (simp add: js_or_def)
  have ts: "timeString P tz f t = Inl (RangeError (invalidTimeZoneMessage P tz))" for f t
    using assms(4,5,6) by (simp add: timeString_zone)
  have a: "fst (try_block P ''get_current_time'' args v) =
             Inl (RangeError (invalidTimeZoneMessage P tz))" for v
    by (simp add: try_block_def get_current_time_eq tz ts bind_sum_def)
  have b: "fst (CallToolRequest_handler P ''get_current_time'' args v) =
             error_result (''Error: '' @ invalidTimeZoneMessage P tz)" for v
    by (simp add: handler_fst a catch_block_text error_result_def)
  have c: "fst (CallToolRequest_handler_log P ''get_current_time'' args w) =
           error_result
             (''Error: '' @
                (case ToString fmt of
                   None \<Rightarrow> cannotConvertMessage P fmt
                 | Some f \<Rightarrow> invalidTimeZoneMessage P tz))"
  proof (cases "ToString fmt")
    case None
    then show ?thesis
      using assms(5)
      by (simp add: handler_log_fst try_block_log_def get_current_time_log_eq tz
            catch_block_text error_result_def flip: fmt_def)
  next
    case (Some f)
    then have "ToString (js_or (optional_member args ''format'') (JStr ''12hour'')) \<noteq> None \<or>
           ToString (js_or (optional_member args ''timezone'') (JStr ''system'')) = None"
      by (simp add: fmt_def)
    from handler_log_get_current_time [OF this] Some show ?thesis
      by (simp add: b)
  qed
  have d: "fst (try_block P ''get_time_info'' args v) =
              Inr (text_result
                     (JSON_stringify
                        (info @ [(''timezone_error'', JStr (''Invalid timezone: '' @ zone))])))"
    if "timeInfo P (clock v (samples v)) = Inr info" for v info
    using that assms(4,5,6)
    by (simp add: try_block_def get_time_info_eq tz bind_sum_def
          add_timezone_fields_appends [OF that] text_result_def)
  have e: "''timezone_time'' \<notin>
              fst ` set (info @ [(''timezone_error'', JStr (''Invalid timezone: '' @ zone))])"
    if "timeInfo P t = Inr info" for t info
    using timeInfo_keys [OF that] by (simp flip: set_map)
  have f: "fst (CallToolRequest_handler_log P ''get_time_info'' args w) =
              text_result
                (JSON_stringify
                   (info @ [(''timezone_error'', JStr (''Invalid timezone: '' @ zone))]))"
    if "timeInfo P (clock w (samples w + 2)) = Inr info" for info
    using d [of "w\<lparr>samples := samples w + 2\<rparr>" info] that
    by (simp add: handler_log_get_time_info handler_fst)
  show ?thesis
    using a [of w] b [of w] c d [OF timeInfo_Inr] e [OF timeInfo_Inr] f [OF timeInfo_Inr]
    by (simp add: handler_fst timeInfo_Inr)
qed

theorem invalid_timezone_asymmetry_witness:
  "optional_member (timezone_only (JStr ''Not/ARealZone'')) ''timezone'' = JStr ''Not/ARealZone'' \<and>
   ToBoolean (JStr ''Not/ARealZone'') \<and>
   JStr ''Not/ARealZone'' \<noteq> JStr ''system'' \<and>
   ToString (JStr ''Not/ARealZone'') = Some ''Not/ARealZone'' \<and>
   \<not> validTimeZone example_host ''Not/ARealZone'' \<and>
   fst (CallToolRequest_handler example_host ''get_current_time''
          (timezone_only (JStr ''Not/ARealZone'')) noon) =
     error_result ''Error: Invalid time zone specified: Not/ARealZone'' \<and>
   fst (CallToolRequest_handler_log example_host ''get_current_time''
          (timezone_only (JStr ''Not/ARealZone'')) noon) =
     error_result ''Error: Invalid time zone specified: Not/ARealZone'' \<and>
   isError (fst (CallToolRequest_handler example_host ''get_time_info''
          (timezone_only (JStr ''Not/ARealZone'')) noon)) = None \<and>
   isError (fst (CallToolRequest_handler_log example_host ''get_time_info''
          (timezone_only (JStr ''Not/ARealZone'')) noon)) = None"
proof -
  have h: "optional_member (timezone_only (JStr ''Not/ARealZone'')) ''timezone'' = JStr ''Not/ARealZone''"
    "ToBoolean (JStr ''Not/ARealZone'')"
    "JStr ''Not/ARealZone'' \<noteq> JStr ''system''"
    "ToString (JStr ''Not/ARealZone'') = Some ''Not/ARealZone''"
    "\<not> validTimeZone example_host ''Not/ARealZone''"
    by simp_all
  note t = invalid_timezone_asymmetry [OF h, of noon]
  from t have a: "fst (CallToolRequest_handler example_host ''get_current_time''
          (timezone_only (JStr ''Not/ARealZone'')) noon) =
     error_result ''Error: Invalid time zone specified: Not/ARealZone''"
    by simp
  from t have b: "fst (CallToolRequest_handler_log example_host ''get_current_time''
          (timezone_only (JStr ''Not/ARealZone'')) noon) =
     error_result ''Error: Invalid time zone specified: Not/ARealZone''"
    by (simp add: js_or_def)
  from t have c: "isError (fst (CallToolRequest_handler example_host ''get_time_info''
          (timezone_only (JStr ''Not/ARealZone'')) noon)) = None"
    by (auto simp: text_result_def)
  from t have d: "isError (fst (CallToolRequest_handler_log example_host ''get_time_info''
          (timezone_only (JStr ''Not/ARealZone'')) noon)) = None"
    by (auto simp: text_result_def)
  from h a b c d show ?thesis
    by (intro conjI)
qed

text \<open>
  The claim as it is worded fails at two arguments. The empty string is not \<^verbatim>\<open>system\<close>
  and no platform takes it for a time zone, but \<^verbatim>\<open>args?.timezone || 'system'\<close> replaces it
  by \<^verbatim>\<open>system\<close> before any platform call, so both tools answer as for the system zone: no
  error result, no \<^verbatim>\<open>timezone_error\<close>. The object \<^verbatim>\<open>{"toString": "x"}\<close> is truthy and not
  \<^verbatim>\<open>system\<close>, and the platform call throws on it, a \<^verbatim>\<open>TypeError\<close>; in \<^verbatim>\<open>get_time_info\<close> the
  \<^verbatim>\<open>catch\<close> clause throws it again when it builds the text of \<^verbatim>\<open>timezone_error\<close>, so this
  tool too answers with \<open>isError = true\<close>.
\<close>

theorem timezone_asymmetry_counterexample:
  "optional_member (timezone_only (JStr [])) ''timezone'' \<noteq> JStr ''system'' \<and>
   \<not> validTimeZone example_host [] \<and>
   CallToolRequest_handler example_host ''get_current_time'' (timezone_only (JStr [])) noon =
     (text_result ''Current time: 1/1/1970, 12:00:00 PM'', noon_after) \<and>
   CallToolRequest_handler example_host ''get_time_info'' (timezone_only (JStr [])) noon =
     (text_result
        (JSON_stringify
          [(''timestamp'', JNum ''43200000''),
           (''iso_string'', JStr ''1970-01-01T12:00:00.000Z''),
           (''local_time'', JStr ''1.1.1970, 12:00:00''),
           (''day_of_week'', JStr ''Thursday''),
           (''date'', JStr ''1/1/1970''),
           (''year'', JNum ''1970''),
           (''month'', JNum ''1''),
           (''day'', JNum ''1''),
           (''hour'', JNum ''12''),
           (''minute'', JNum ''0''),
           (''second'', JNum ''0''),
           (''timezone_offset'', JNum ''0'')]), noon_after) \<and>
   optional_member (timezone_only no_string) ''timezone'' \<noteq> JStr ''system'' \<and>
   ToBoolean (optional_member (timezone_only no_string) ''timezone'') \<and>
   timeString example_host no_string (JStr ''12hour'') 43200000 =
     Inl (TypeError ''Cannot convert object to primitive value'') \<and>
   CallToolRequest_handler example_host ''get_time_info'' (timezone_only no_string) noon =
     (error_result ''Error: Cannot convert object to primitive value'', noon_after) \<and>
   fst (CallToolRequest_handler_log example_host ''get_time_info'' (timezone_only no_string) noon) =
     error_result ''Error: Cannot convert object to primitive value''"
proof -
  have a: "CallToolRequest_handler example_host ''get_current_time'' (timezone_only (JStr [])) noon =
     (text_result ''Current time: 1/1/1970, 12:00:00 PM'', noon_after)"
    by (simp add: CallToolRequest_handler_def try_block_def get_current_time_eq js_or_def
          timeString_system bind_sum_def text_result_def example_format_def no_options_def)
  have b: "CallToolRequest_handler example_host ''get_time_info'' (timezone_only (JStr [])) noon =
     (text_result
        (JSON_stringify
          [(''timestamp'', JNum ''43200000''),
           (''iso_string'', JStr ''1970-01-01T12:00:00.000Z''),
           (''local_time'', JStr ''1.1.1970, 12:00:00''),
           (''day_of_week'', JStr ''Thursday''),
           (''date'', JStr ''1/1/1970''),
           (''year'', JNum ''1970''),
           (''month'', JNum ''1''),
           (''day'', JNum ''1''),
           (''hour'', JNum ''12''),
           (''minute'', JNum ''0''),
           (''second'', JNum ''0''),
           (''timezone_offset'', JNum ''0'')]), noon_after)"
    by (simp add: CallToolRequest_handler_def try_block_def get_time_info_eq js_or_def
          example_info add_timezone_fields_system bind_sum_def text_result_def)
  have c: "timeString example_host no_string (JStr ''12hour'') 43200000 =
     Inl (TypeError ''Cannot convert object to primitive value'')"
    by (simp add: timeString_zone)
  have d: "CallToolRequest_handler example_host ''get_time_info'' (timezone_only no_string) noon =
     (error_result ''Error: Cannot convert object to primitive value'', noon_after)"
    by (simp add: CallToolRequest_handler_def try_block_def get_time_info_eq js_or_def
          example_info add_timezone_fields_zone bind_sum_def catch_block_text error_result_def)
  have e: "fst (CallToolRequest_handler_log example_host ''get_time_info'' (timezone_only no_string)
               noon) =
     error_result ''Error: Cannot convert object to primitive value''"
    by (simp add: handler_log_fst try_block_log_def get_time_info_log_eq js_or_def
          catch_block_text error_result_def)
  have f: "optional_member (timezone_only (JStr [])) ''timezone'' \<noteq> JStr ''system''"
    "\<not> validTimeZone example_host []"
    "optional_member (timezone_only no_string) ''timezone'' \<noteq> JStr ''system''"
    "ToBoolean (optional_member (timezone_only no_string) ''timezone'')"
    by simp_all
  from f(1,2) a b f(3,4) c d e show ?thesis
    by (intro conjI)
qed

text \<open>
  C2. A tool name that is not in the catalog (neither \<^verbatim>\<open>get_current_time\<close> nor
  \<^verbatim>\<open>get_time_info\<close>) is answered, whatever the arguments, by a result with
  \<open>isError = true\<close> and the one text \<^verbatim>\<open>Error: Unknown tool: \<close> followed by the name. The
  handler returns this result: the failure does not leave it. No clock reading is taken.
\<close>

theorem unknown_tool_error:
  assumes "tool \<notin> name ` set ListToolsRequest_handler"
  shows "CallToolRequest_handler P tool args w =
           (\<lparr>content = [\<lparr>item_type = ''text'', item_text = ''Error: Unknown tool: '' @ tool\<rparr>],
             isError = Some True\<rparr>, w)"
proof -
  from assms have "tool \<noteq> ''get_current_time''" "tool \<noteq> ''get_time_info''"
    by (simp_all add: tool_names)
  then have "try_block P tool args w = (Inl (Error (''Unknown tool: '' @ tool)), w)"
    by (rule try_block_unknown)
  then show ?thesis
    by (simp add: CallToolRequest_handler_def catch_block_def)
qed

theorem unknown_tool_error_witness:
  "''nonexistent_op'' \<notin> name ` set ListToolsRequest_handler \<and>
   CallToolRequest_handler example_host ''nonexistent_op'' no_arguments noon =
     (error_result ''Error: Unknown tool: nonexistent_op'', noon)"
proof -
  have h: "''nonexistent_op'' \<notin> name ` set ListToolsRequest_handler"
    by (simp add: tool_names)
  show ?thesis
    using h unknown_tool_error [OF h, of example_host no_arguments noon]
    by (simp add: error_result_def)
qed

text \<open>
  C3. For every tool name and every arguments the handler returns a result holding exactly
  one content item, of type \<^verbatim>\<open>text\<close>. It is a total function into results, so nothing is
  raised past it: whatever the body of \<^verbatim>\<open>try\<close> throws becomes the result with
  \<open>isError = true\<close> and the text \<^verbatim>\<open>Error: \<close> followed by the message of what was thrown.
\<close>

theorem call_tool_always_answers:
  "(\<exists>s. content (fst (CallToolRequest_handler P tool args w)) =
          [\<lparr>item_type = ''text'', item_text = s\<rparr>]) \<and>
   (\<forall>e. fst (try_block P tool args w) = Inl e \<longrightarrow>
        fst (CallToolRequest_handler P tool args w) =
          \<lparr>content = [\<lparr>item_type = ''text'', item_text = ''Error: '' @ message e\<rparr>],
           isError = Some True\<rparr>)"
proof (cases "fst (try_block P tool args w)")
  case (Inl e)
  then show ?thesis
    by (simp add: handler_fst catch_block_text)
next
  case (Inr r)
  from try_block_success_shape [OF Inr] obtain s where
    "r = \<lparr>content = [\<lparr>item_type = ''text'', item_text = s\<rparr>], isError = None\<rparr>" ..
  with Inr show ?thesis
    by (simp add: handler_fst)
qed

theorem call_tool_always_answers_witness:
  "fst (try_block example_host ''get_current_time'' (timezone_only (JStr ''Not/ARealZone'')) noon) =
     Inl (RangeError ''Invalid time zone specified: Not/ARealZone'') \<and>
   fst (CallToolRequest_handler example_host ''get_current_time''
          (timezone_only (JStr ''Not/ARealZone'')) noon) =
     error_result ''Error: Invalid time zone specified: Not/ARealZone''"
  using call_tool_always_answers
    [of example_host "''get_current_time''" "timezone_only (JStr ''Not/ARealZone'')" noon]
    example_invalid_zone
  by (simp add: error_result_def)

text \<open>
  C4. In both tools a declared parameter whose argument is missing (no arguments at all,
  or no such key) or falsy is replaced by the default its descriptor declares,
  \<^verbatim>\<open>system\<close> for \<^verbatim>\<open>timezone\<close> and \<^verbatim>\<open>12hour\<close> for \<^verbatim>\<open>format\<close>; a truthy argument is used as it was
  received, whatever its type. The tools compute with exactly these values, and a call
  answers as the call whose arguments are these values.
\<close>

theorem defaults_applied:
  fixes args :: arguments
  defines "timezone \<equiv>
     (case args of
        None \<Rightarrow> JStr ''system''
      | Some obj \<Rightarrow>
          (case obj ''timezone'' of
             None \<Rightarrow> JStr ''system''
           | Some v \<Rightarrow> if ToBoolean v then v else JStr ''system''))"
    and "format \<equiv>
     (case args of
        None \<Rightarrow> JStr ''12hour''
      | Some obj \<Rightarrow>
          (case obj ''format'' of
             None \<Rightarrow> JStr ''12hour''
           | Some v \<Rightarrow> if ToBoolean v then v else JStr ''12hour''))"
  shows "declared_default ''get_current_time'' ''timezone'' = Some ''system'' \<and>
         declared_default ''get_current_time'' ''format'' = Some ''12hour'' \<and>
         declared_default ''get_time_info'' ''timezone'' = Some ''system'' \<and>
         get_current_time P args w =
           (bind_sum (timeString P timezone format (clock w (samples w)))
              (\<lambda>s. Inr \<lparr>content = [\<lparr>item_type = ''text'', item_text = ''Current time: '' @ s\<rparr>],
                         isError = None\<rparr>),
            w\<lparr>samples := Suc (samples w)\<rparr>) \<and>
         get_time_info P args w =
           (bind_sum (timeInfo P (clock w (samples w))) (\<lambda>info.
            bind_sum (add_timezone_fields P timezone (clock w (samples w)) info) (\<lambda>info.
              Inr \<lparr>content = [\<lparr>item_type = ''text'', item_text = JSON_stringify info\<rparr>],
                   isError = None\<rparr>)),
            w\<lparr>samples := Suc (samples w)\<rparr>) \<and>
         CallToolRequest_handler P ''get_current_time'' args w =
           CallToolRequest_handler P ''get_current_time'' (timezone_format timezone format) w \<and>
         CallToolRequest_handler P ''get_time_info'' args w =
           CallToolRequest_handler P ''get_time_info'' (timezone_only timezone) w"
proof -
  have a: "js_or (optional_member args ''timezone'') (JStr ''system'') = timezone"
    "js_or (optional_member args ''format'') (JStr ''12hour'') = format"
    by (simp_all add: js_or_optional_member timezone_def format_def)
  have "ToBoolean timezone" and "ToBoolean format"
    by (simp_all add: timezone_def format_def split: option.splits)
  then have d: "js_or timezone (JStr ''system'') = timezone"
    "js_or format (JStr ''12hour'') = format"
    by (simp_all add: js_or_def)
  have b: "get_current_time P args w =
           (bind_sum (timeString P timezone format (clock w (samples w)))
              (\<lambda>s. Inr \<lparr>content = [\<lparr>item_type = ''text'', item_text = ''Current time: '' @ s\<rparr>],
                         isError = None\<rparr>),
            w\<lparr>samples := Suc (samples w)\<rparr>)"
    by (simp add: get_current_time_eq a)
  have c: "get_time_info P args w =
           (bind_sum (timeInfo P (clock w (samples w))) (\<lambda>info.
            bind_sum (add_timezone_fields P timezone (clock w (samples w)) info) (\<lambda>info.
              Inr \<lparr>content = [\<lparr>item_type = ''text'', item_text = JSON_stringify info\<rparr>],
                   isError = None\<rparr>)),
            w\<lparr>samples := Suc (samples w)\<rparr>)"
    by (simp add: get_time_info_eq a)
  have e: "get_current_time P (timezone_format timezone format) w = get_current_time P args w"
    "get_time_info P (timezone_only timezone) w = get_time_info P args w"
    by (simp_all add: get_current_time_eq get_time_info_eq a d)
  have f: "CallToolRequest_handler P ''get_current_time'' args w =
           CallToolRequest_handler P ''get_current_time'' (timezone_format timezone format) w"
    "CallToolRequest_handler P ''get_time_info'' args w =
           CallToolRequest_handler P ''get_time_info'' (timezone_only timezone) w"
    by (simp_all add: CallToolRequest_handler_def try_block_def e)
  from declared_defaults b c f show ?thesis
    by blast
qed







text \<open>
  C7 (amended). The text of every successful invocation of \<^verbatim>\<open>get_time_info\<close> is
  \<^verbatim>\<open>JSON.stringify\<close> with an indentation of two spaces of the record whose fields are, in
  this order: the epoch milliseconds, the ISO-8601 string, the date and time in the
  default locale of the host, the full weekday name, the date in the locale \<^verbatim>\<open>en-US\<close>,
  the year, the month counted from 1, the day, the hour, the minute, the second and the
  time zone offset \<^verbatim>\<open>getTimezoneOffset\<close>; then, only when \<^verbatim>\<open>timezone\<close> is not \<^verbatim>\<open>system\<close>,
  either \<^verbatim>\<open>timezone_time\<close> and \<^verbatim>\<open>requested_timezone\<close> or \<^verbatim>\<open>timezone_error\<close>. An invocation
  succeeds unless its \<^verbatim>\<open>timezone\<close> has no string. The server that writes a log answers
  alike, from its third reading of the clock.
\<close>

theorem time_info_record:
  fixes args :: arguments and P :: host
  defines "tz \<equiv> js_or (optional_member args ''timezone'') (JStr ''system'')"
  defines "entries \<equiv> \<lambda>now.
     [(''timestamp'', JInt now),
      (''iso_string'', JStr (toISOString P now)),
      (''local_time'', JStr (formatDate P Date_toLocaleString None no_options now)),
      (''day_of_week'',
         JStr (formatDate P Date_toLocaleDateString (Some ''en-US'')
                 (no_options\<lparr>weekday := Some ''long''\<rparr>) now)),
      (''date'', JStr (formatDate P Date_toLocaleDateString (Some ''en-US'') no_options now)),
      (''year'', JInt (getFullYear P now)),
      (''month'', JInt (getMonth P now + 1)),
      (''day'', JInt (getDate P now)),
      (''hour'', JInt (getHours P now)),
      (''minute'', JInt (getMinutes P now)),
      (''second'', JInt (getSeconds P now)),
      (''timezone_offset'', JInt (getTimezoneOffset P now))]"
  defines "answer \<equiv> \<lambda>now.
     if tz = JStr ''system'' then text_result (JSON_stringify (entries now))
     else
       (case ToString tz of
          None \<Rightarrow> error_result (''Error: '' @ cannotConvertMessage P tz)
        | Some zone \<Rightarrow>
            text_result
              (JSON_stringify
                 (entries now @
                  (if validTimeZone P zone then
                     [(''timezone_time'',
                         JStr (formatDate P Intl_DateTimeFormat (Some ''en-US'')
                           \<lparr>timeZone = Some tz, weekday = None, year = Some ''numeric'',
                            month = Some ''2-digit'', day = Some ''2-digit'',
                            hour = Some ''2-digit'', minute = Some ''2-digit'',
                            second = Some ''2-digit'', hour12 = None,
                            timeZoneName = Some ''short''\<rparr> now)),
                      (''requested_timezone'', tz)]
                   else [(''timezone_error'', JStr (''Invalid timezone: '' @ zone))]))))"
  shows "CallToolRequest_handler P ''get_time_info'' args w =
           (answer (clock w (samples w)), w\<lparr>samples := Suc (samples w)\<rparr>) \<and>
         fst (CallToolRequest_handler_log P ''get_time_info'' args w) =
           answer (clock w (samples w + 2))"
proof -
  have i: "timeInfo P now = Inr (entries now)" for now
    by (simp add: timeInfo_Inr entries_def)
  have a: "CallToolRequest_handler P ''get_time_info'' args v =
           (answer (clock v (samples v)), v\<lparr>samples := Suc (samples v)\<rparr>)" for v
    by (simp add: CallToolRequest_handler_def try_block_def get_time_info_eq i bind_sum_def
          add_timezone_fields_appends [OF i] catch_block_text answer_def text_result_def
          error_result_def
          flip: tz_def split: option.splits)
  have "fst (CallToolRequest_handler_log P ''get_time_info'' args w) =
           answer (clock w (samples w + 2))"
    by (simp add: handler_log_get_time_info a)
  with a show ?thesis
    by simp
qed

theorem time_info_record_witness:
  \<open>CallToolRequest_handler example_host ''get_time_info'' (timezone_only (JStr ''Asia/Tokyo'')) noon =
     (text_result
        (join ''\<newline>''
          [''{'',
           ''  "timestamp": 43200000,'',
           ''  "iso_string": "1970-01-01T12:00:00.000Z",'',
           ''  "local_time": "1.1.1970, 12:00:00",'',
           ''  "day_of_week": "Thursday",'',
           ''  "date": "1/1/1970",'',
           ''  "year": 1970,'',
           ''  "month": 1,'',
           ''  "day": 1,'',
           ''  "hour": 12,'',
           ''  "minute": 0,'',
           ''  "second": 0,'',
           ''  "timezone_offset": 0,'',
           ''  "timezone_time": "01/01/1970, 09:00:00 PM GMT+9",'',
           ''  "requested_timezone": "Asia/Tokyo"'',
           ''}'']),
      noon_after) \<and>
   CallToolRequest_handler example_host ''get_time_info'' (timezone_only no_string) noon =
     (error_result ''Error: Cannot convert object to primitive value'', noon_after)\<close>
proof -
  note t = time_info_record [of example_host _ noon]
  from t [of "timezone_only (JStr ''Asia/Tokyo'')"]
  have a: "CallToolRequest_handler example_host ''get_time_info''
             (timezone_only (JStr ''Asia/Tokyo'')) noon =
     (text_result
        (JSON_stringify
          [(''timestamp'', JNum ''43200000''),
           (''iso_string'', JStr ''1970-01-01T12:00:00.000Z''),
           (''local_time'', JStr ''1.1.1970, 12:00:00''),
           (''day_of_week'', JStr ''Thursday''),
           (''date'', JStr ''1/1/1970''),
           (''year'', JNum ''1970''),
           (''month'', JNum ''1''),
           (''day'', JNum ''1''),
           (''hour'', JNum ''12''),
           (''minute'', JNum ''0''),
           (''second'', JNum ''0''),
           (''timezone_offset'', JNum ''0''),
           (''timezone_time'', JStr ''01/01/1970, 09:00:00 PM GMT+9''),
           (''requested_timezone'', JStr ''Asia/Tokyo'')]),
      noon_after)"
    by (simp add: js_or_def example_format_def no_options_def)
  from t [of "timezone_only no_string"]
  have b: "CallToolRequest_handler example_host ''get_time_info'' (timezone_only no_string) noon =
     (error_result ''Error: Cannot convert object to primitive value'', noon_after)"
    by (simp add: js_or_def)
  show ?thesis
    unfolding a b
    by (simp add: JSON_stringify_def wrap_def gap_def QuoteJSONString_def escape_char_def)
qed

text \<open>
  The field \<^verbatim>\<open>date\<close> is the \<^verbatim>\<open>en-US\<close> date, not the date in the default locale of the host
  (which \<^verbatim>\<open>local_time\<close> uses): on a host whose default locale is German the text differs
  from the serialization of the record as the specification words it.
\<close>

theorem default_locale_date_counterexample:
  "CallToolRequest_handler example_host ''get_time_info'' no_arguments noon =
     (text_result
        (JSON_stringify
          [(''timestamp'', JNum ''43200000''),
           (''iso_string'', JStr ''1970-01-01T12:00:00.000Z''),
           (''local_time'', JStr ''1.1.1970, 12:00:00''),
           (''day_of_week'', JStr ''Thursday''),
           (''date'', JStr ''1/1/1970''),
           (''year'', JNum ''1970''),
           (''month'', JNum ''1''),
           (''day'', JNum ''1''),
           (''hour'', JNum ''12''),
           (''minute'', JNum ''0''),
           (''second'', JNum ''0''),
           (''timezone_offset'', JNum ''0'')]), noon_after) \<and>
   spec_timeInfo example_host 43200000 =
     [(''timestamp'', JNum ''43200000''),
      (''iso_string'', JStr ''1970-01-01T12:00:00.000Z''),
      (''local_time'', JStr ''1.1.1970, 12:00:00''),
      (''day_of_week'', JStr ''Thursday''),
      (''date'', JStr ''1.1.1970''),
      (''year'', JNum ''1970''),
      (''month'', JNum ''1''),
      (''day'', JNum ''1''),
      (''hour'', JNum ''12''),
      (''minute'', JNum ''0''),
      (''second'', JNum ''0''),
      (''timezone_offset'', JNum ''0'')] \<and>
   fst (CallToolRequest_handler example_host ''get_time_info'' no_arguments noon) \<noteq>
     text_result (JSON_stringify (spec_timeInfo example_host 43200000))"
proof -
  have a: "CallToolRequest_handler example_host ''get_time_info'' no_arguments noon =
     (text_result
        (JSON_stringify
          [(''timestamp'', JNum ''43200000''),
           (''iso_string'', JStr ''1970-01-01T12:00:00.000Z''),
           (''local_time'', JStr ''1.1.1970, 12:00:00''),
           (''day_of_week'', JStr ''Thursday''),
           (''date'', JStr ''1/1/1970''),
           (''year'', JNum ''1970''),
           (''month'', JNum ''1''),
           (''day'', JNum ''1''),
           (''hour'', JNum ''12''),
           (''minute'', JNum ''0''),
           (''second'', JNum ''0''),
           (''timezone_offset'', JNum ''0'')]), noon_after)"
    by (simp add: CallToolRequest_handler_def try_block_def get_time_info_eq js_or_def
          example_info add_timezone_fields_system bind_sum_def text_result_def)
  have b: "spec_timeInfo example_host 43200000 =
     [(''timestamp'', JNum ''43200000''),
      (''iso_string'', JStr ''1970-01-01T12:00:00.000Z''),
      (''local_time'', JStr ''1.1.1970, 12:00:00''),
      (''day_of_week'', JStr ''Thursday''),
      (''date'', JStr ''1.1.1970''),
      (''year'', JNum ''1970''),
      (''month'', JNum ''1''),
      (''day'', JNum ''1''),
      (''hour'', JNum ''12''),
      (''minute'', JNum ''0''),
      (''second'', JNum ''0''),
      (''timezone_offset'', JNum ''0'')]"
    by (simp add: spec_timeInfo_def example_format_def no_options_def)
  have c: "fst (CallToolRequest_handler example_host ''get_time_info'' no_arguments noon) \<noteq>
     text_result (JSON_stringify (spec_timeInfo example_host 43200000))"
    unfolding a b
    by (simp add: text_result_def JSON_stringify_def wrap_def gap_def QuoteJSONString_def
          escape_char_def)
  from a b c show ?thesis by blast
qed

text \<open>
  C8. The list of tools is a constant (no input, no state, no failure): two descriptors,
  \<^verbatim>\<open>get_current_time\<close> first with the parameters \<^verbatim>\<open>timezone\<close> (default \<^verbatim>\<open>system\<close>) and
  \<^verbatim>\<open>format\<close> (one of \<^verbatim>\<open>12hour\<close>, \<^verbatim>\<open>24hour\<close>, \<^verbatim>\<open>iso\<close>; default \<^verbatim>\<open>12hour\<close>), then
  \<^verbatim>\<open>get_time_info\<close> with the parameter \<^verbatim>\<open>timezone\<close> (default \<^verbatim>\<open>system\<close>). Each of the two
  names has exactly one descriptor, and the names the handler does not answer with
  \<^verbatim>\<open>Unknown tool\<close> are exactly the names of the list.
\<close>

theorem list_tools_catalog:
  "map name ListToolsRequest_handler = [''get_current_time'', ''get_time_info''] \<and>
   map (\<lambda>t. map (\<lambda>(k, p). (k, type p, enum p, default p)) (properties (inputSchema t)))
     ListToolsRequest_handler =
     [[(''timezone'', ''string'', None, Some ''system''),
       (''format'', ''string'', Some [''12hour'', ''24hour'', ''iso''], Some ''12hour'')],
      [(''timezone'', ''string'', None, Some ''system'')]] \<and>
   length (filter (\<lambda>t. name t = ''get_current_time'') ListToolsRequest_handler) = 1 \<and>
   length (filter (\<lambda>t. name t = ''get_time_info'') ListToolsRequest_handler) = 1 \<and>
   (fst (try_block P tool args w) = Inl (Error (''Unknown tool: '' @ tool)))
     = (tool \<notin> name ` set ListToolsRequest_handler)"
proof -
  have a: "fst (get_current_time P args w) \<noteq> Inl (Error m)" for m
    using timeString_never_Error [of P _ _ _ m]
    by (auto simp: get_current_time_eq bind_sum_def split: sum.splits)
  have b: "fst (get_time_info P args w) \<noteq> Inl (Error m)" for m
    using add_timezone_fields_never_Error [of P _ _ _ m]
    by (auto simp: get_time_info_eq timeInfo_Inr bind_sum_def split: sum.splits)
  have "(fst (try_block P tool args w) = Inl (Error (''Unknown tool: '' @ tool)))
          = (tool \<noteq> ''get_current_time'' \<and> tool \<noteq> ''get_time_info'')"
    using a b by (simp add: try_block_def)
  then show ?thesis
    by (simp add: tool_names) (simp add: ListToolsRequest_handler_def)
qed

text \<open>
  C9 (amended). An invocation of \<^verbatim>\<open>get_current_time\<close> or \<^verbatim>\<open>get_time_info\<close> takes the instant
  of its answer from one reading of the clock, \<^verbatim>\<open>now\<close>, and every derived part of the
  answer (the time string; every field of the record, the weekday and the date among
  them) is computed from that reading. In the server without a log it is the only
  reading of the invocation. The server that writes a log reads the clock once more for
  the time stamp of each log line: four readings in an invocation that reaches \<^verbatim>\<open>now\<close>,
  which is the third, and two in one that fails while it builds its log line; the
  readings of the log never enter the answer.
\<close>

theorem one_clock_reading:
  fixes args :: arguments
  defines "timezone \<equiv> js_or (optional_member args ''timezone'') (JStr ''system'')"
    and "format \<equiv> js_or (optional_member args ''format'') (JStr ''12hour'')"
  assumes "tool = ''get_current_time'' \<or> tool = ''get_time_info''"
  shows "snd (CallToolRequest_handler P tool args w) = w\<lparr>samples := Suc (samples w)\<rparr> \<and>
         (\<forall>w'. clock w' (samples w') = clock w (samples w) \<longrightarrow>
            fst (CallToolRequest_handler P tool args w') =
            fst (CallToolRequest_handler P tool args w)) \<and>
         fst (CallToolRequest_handler P ''get_current_time'' args w) =
           (case timeString P timezone format (clock w (samples w)) of
              Inr s \<Rightarrow> text_result (''Current time: '' @ s)
            | Inl e \<Rightarrow> catch_block e) \<and>
         (\<exists>info.
            timeInfo P (clock w (samples w)) = Inr info \<and>
            map_of info ''timestamp'' = Some (JInt (clock w (samples w))) \<and>
            map_of info ''iso_string'' = Some (JStr (toISOString P (clock w (samples w)))) \<and>
            map_of info ''local_time'' =
              Some (JStr (formatDate P Date_toLocaleString None no_options
                            (clock w (samples w)))) \<and>
            map_of info ''day_of_week'' =
              Some (JStr (formatDate P Date_toLocaleDateString (Some ''en-US'')
                            (no_options\<lparr>weekday := Some ''long''\<rparr>) (clock w (samples w)))) \<and>
            map_of info ''date'' =
              Some (JStr (formatDate P Date_toLocaleDateString (Some ''en-US'') no_options
                            (clock w (samples w)))) \<and>
            map_of info ''year'' = Some (JInt (getFullYear P (clock w (samples w)))) \<and>
            map_of info ''month'' = Some (JInt (getMonth P (clock w (samples w)) + 1)) \<and>
            map_of info ''day'' = Some (JInt (getDate P (clock w (samples w)))) \<and>
            map_of info ''hour'' = Some (JInt (getHours P (clock w (samples w)))) \<and>
            map_of info ''minute'' = Some (JInt (getMinutes P (clock w (samples w)))) \<and>
            map_of info ''second'' = Some (JInt (getSeconds P (clock w (samples w)))) \<and>
            map_of info ''timezone_offset'' =
              Some (JInt (getTimezoneOffset P (clock w (samples w)))) \<and>
            fst (CallToolRequest_handler P ''get_time_info'' args w) =
              (case add_timezone_fields P timezone (clock w (samples w)) info of
                 Inr info' \<Rightarrow> text_result (JSON_stringify info')
               | Inl e \<Rightarrow> catch_block e)) \<and>
         snd (CallToolRequest_handler_log P tool args w) =
           w\<lparr>samples :=
               samples w +
               (if ToString timezone = None \<or>
                   (tool = ''get_current_time'' \<and> ToString format = None)
                then 2 else 4)\<rparr> \<and>
         (\<forall>w'. clock w' (samples w' + 2) = clock w (samples w + 2) \<longrightarrow>
            fst (CallToolRequest_handler_log P tool args w') =
            fst (CallToolRequest_handler_log P tool args w)) \<and>
         fst (CallToolRequest_handler_log P ''get_time_info'' args w) =
           fst (CallToolRequest_handler P ''get_time_info'' args (w\<lparr>samples := samples w + 2\<rparr>)) \<and>
         fst (CallToolRequest_handler_log P ''get_current_time'' args w) =
           (if ToString timezone \<noteq> None \<and> ToString format = None
            then error_result (''Error: '' @ cannotConvertMessage P format)
            else fst (CallToolRequest_handler P ''get_current_time'' args
                        (w\<lparr>samples := samples w + 2\<rparr>)))"
proof -
  have a: "snd (CallToolRequest_handler P tool args w) = w\<lparr>samples := Suc (samples w)\<rparr>"
    using assms(3)
    by (auto simp: handler_snd try_block_def get_current_time_eq get_time_info_eq)
  have b: "fst (CallToolRequest_handler P tool args w') =
           fst (CallToolRequest_handler P tool args w)"
    if "clock w' (samples w') = clock w (samples w)" for w' w
    using that assms(3)
    by (auto simp: handler_fst try_block_def get_current_time_eq get_time_info_eq)
  have c: "fst (CallToolRequest_handler P ''get_current_time'' args w) =
           (case timeString P timezone format (clock w (samples w)) of
              Inr s \<Rightarrow> text_result (''Current time: '' @ s)
            | Inl e \<Rightarrow> catch_block e)"
    by (simp add: handler_fst try_block_def get_current_time_eq bind_sum_def text_result_def
          timezone_def format_def split: sum.splits)
  have d: "fst (CallToolRequest_handler P ''get_time_info'' args w) =
              (case add_timezone_fields P timezone (clock w (samples w)) info of
                 Inr info' \<Rightarrow> text_result (JSON_stringify info')
               | Inl e \<Rightarrow> catch_block e)"
    if "timeInfo P (clock w (samples w)) = Inr info" for info
    using that
    by (simp add: handler_fst try_block_def get_time_info_eq bind_sum_def text_result_def
          timezone_def split: sum.splits)
  have g: "fst (CallToolRequest_handler_log P ''get_current_time'' args v) =
           (if ToString timezone \<noteq> None \<and> ToString format = None
            then error_result (''Error: '' @ cannotConvertMessage P format)
            else fst (CallToolRequest_handler P ''get_current_time'' args
                        (v\<lparr>samples := samples v + 2\<rparr>)))" for v
  proof (cases "ToString timezone \<noteq> None \<and> ToString format = None")
    case True
    then show ?thesis
      by (auto simp: handler_log_fst try_block_log_def get_current_time_log_eq catch_block_text
            error_result_def timezone_def format_def)
  next
    case False
    then have "ToString (js_or (optional_member args ''format'') (JStr ''12hour'')) \<noteq> None \<or>
           ToString (js_or (optional_member args ''timezone'') (JStr ''system'')) = None"
      by (auto simp: timezone_def format_def)
    from handler_log_get_current_time [OF this, of P v] False show ?thesis
      by auto
  qed
  have e: "snd (CallToolRequest_handler_log P tool args w) =
           w\<lparr>samples :=
               samples w +
               (if ToString timezone = None \<or>
                   (tool = ''get_current_time'' \<and> ToString format = None)
                then 2 else 4)\<rparr>"
    using assms(3)
    by (auto simp: CallToolRequest_handler_log_def try_block_log_def log_eq
          get_current_time_log_eq get_time_info_log_eq timezone_def format_def
          split: option.splits sum.splits)
  have f: "fst (CallToolRequest_handler_log P tool args w') =
           fst (CallToolRequest_handler_log P tool args w)"
    if "clock w' (samples w' + 2) = clock w (samples w + 2)" for w'
  proof -
    from that have "clock (w'\<lparr>samples := samples w' + 2\<rparr>) (samples (w'\<lparr>samples := samples w' + 2\<rparr>)) =
        clock (w\<lparr>samples := samples w + 2\<rparr>) (samples (w\<lparr>samples := samples w + 2\<rparr>))"
      by simp
    from b [OF this] have h: "fst (CallToolRequest_handler P tool args (w'\<lparr>samples := samples w' + 2\<rparr>)) =
        fst (CallToolRequest_handler P tool args (w\<lparr>samples := samples w + 2\<rparr>))" .
    from assms(3) show ?thesis
    proof
      assume "tool = ''get_current_time''"
      with h show ?thesis by (simp add: g)
    next
      assume "tool = ''get_time_info''"
      with h show ?thesis by (simp add: handler_log_get_time_info)
    qed
  qed
  have B: "\<forall>w'. clock w' (samples w') = clock w (samples w) \<longrightarrow>
            fst (CallToolRequest_handler P tool args w') =
            fst (CallToolRequest_handler P tool args w)"
    using b by blast
  have F: "\<forall>w'. clock w' (samples w' + 2) = clock w (samples w + 2) \<longrightarrow>
            fst (CallToolRequest_handler_log P tool args w') =
            fst (CallToolRequest_handler_log P tool args w)"
    using f by blast
  have D: "\<exists>info.
            timeInfo P (clock w (samples w)) = Inr info \<and>
            map_of info ''timestamp'' = Some (JInt (clock w (samples w))) \<and>
            map_of info ''iso_string'' = Some (JStr (toISOString P (clock w (samples w)))) \<and>
            map_of info ''local_time'' =
              Some (JStr (formatDate P Date_toLocaleString None no_options
                            (clock w (samples w)))) \<and>
            map_of info ''day_of_week'' =
              Some (JStr (formatDate P Date_toLocaleDateString (Some ''en-US'')
                            (no_options\<lparr>weekday := Some ''long''\<rparr>) (clock w (samples w)))) \<and>
            map_of info ''date'' =
              Some (JStr (formatDate P Date_toLocaleDateString (Some ''en-US'') no_options
                            (clock w (samples w)))) \<and>
            map_of info ''year'' = Some (JInt (getFullYear P (clock w (samples w)))) \<and>
            map_of info ''month'' = Some (JInt (getMonth P (clock w (samples w)) + 1)) \<and>
            map_of info ''day'' = Some (JInt (getDate P (clock w (samples w)))) \<and>
            map_of info ''hour'' = Some (JInt (getHours P (clock w (samples w)))) \<and>
            map_of info ''minute'' = Some (JInt (getMinutes P (clock w (samples w)))) \<and>
            map_of info ''second'' = Some (JInt (getSeconds P (clock w (samples w)))) \<and>
            map_of info ''timezone_offset'' =
              Some (JInt (getTimezoneOffset P (clock w (samples w)))) \<and>
            fst (CallToolRequest_handler P ''get_time_info'' args w) =
              (case add_timezone_fields P timezone (clock w (samples w)) info of
                 Inr info' \<Rightarrow> text_result (JSON_stringify info')
               | Inl e \<Rightarrow> catch_block e)"
    using d [OF timeInfo_Inr] by (simp add: timeInfo_Inr)
  note G = handler_log_get_time_info [of P args w]
  from a B c D e F G g [of w] show ?thesis
    by (intro conjI)
qed

theorem one_clock_reading_witness:
  "(''get_time_info'' = ''get_current_time'' \<or> ''get_time_info'' = ''get_time_info'') \<and>
   snd (CallToolRequest_handler example_host ''get_time_info''
          (timezone_only (JStr ''Asia/Tokyo'')) noon) = noon_after \<and>
   clock noon_after (samples noon_after) = clock noon (samples noon) \<and>
   fst (CallToolRequest_handler example_host ''get_time_info''
          (timezone_only (JStr ''Asia/Tokyo'')) noon_after) =
   fst (CallToolRequest_handler example_host ''get_time_info''
          (timezone_only (JStr ''Asia/Tokyo'')) noon) \<and>
   snd (CallToolRequest_handler_log example_host ''get_time_info''
          (timezone_only (JStr ''Asia/Tokyo'')) noon) = noon_after4 \<and>
   clock noon_after (samples noon_after + 2) = clock noon (samples noon + 2) \<and>
   fst (CallToolRequest_handler_log example_host ''get_time_info''
          (timezone_only (JStr ''Asia/Tokyo'')) noon_after) =
   fst (CallToolRequest_handler_log example_host ''get_time_info''
          (timezone_only (JStr ''Asia/Tokyo'')) noon)"
proof -
  have h: "''get_time_info'' = ''get_current_time'' \<or> ''get_time_info'' = ''get_time_info''"
    by simp
  have k: "clock noon_after (samples noon_after) = clock noon (samples noon)"
    "clock noon_after (samples noon_after + 2) = clock noon (samples noon + 2)"
    by simp_all
  note t = one_clock_reading [OF h, of example_host "timezone_only (JStr ''Asia/Tokyo'')" noon]
  from t have "snd (CallToolRequest_handler example_host ''get_time_info''
                 (timezone_only (JStr ''Asia/Tokyo'')) noon) = noon\<lparr>samples := Suc (samples noon)\<rparr>"
    by (rule conjunct1)
  then have a: "snd (CallToolRequest_handler example_host ''get_time_info''
                 (timezone_only (JStr ''Asia/Tokyo'')) noon) = noon_after"
    by simp
  from t have "\<forall>w'. clock w' (samples w') = clock noon (samples noon) \<longrightarrow>
      fst (CallToolRequest_handler example_host ''get_time_info''
             (timezone_only (JStr ''Asia/Tokyo'')) w') =
      fst (CallToolRequest_handler example_host ''get_time_info''
             (timezone_only (JStr ''Asia/Tokyo'')) noon)"
    by (rule conjunct1 [OF conjunct2])
  with k(1) have b: "fst (CallToolRequest_handler example_host ''get_time_info''
             (timezone_only (JStr ''Asia/Tokyo'')) noon_after) =
      fst (CallToolRequest_handler example_host ''get_time_info''
             (timezone_only (JStr ''Asia/Tokyo'')) noon)"
    by blast
  note u = t [THEN conjunct2, THEN conjunct2, THEN conjunct2, THEN conjunct2]
  from u have "snd (CallToolRequest_handler_log example_host ''get_time_info''
          (timezone_only (JStr ''Asia/Tokyo'')) noon) =
           noon\<lparr>samples :=
               samples noon +
               (if ToString (js_or (optional_member (timezone_only (JStr ''Asia/Tokyo'')) ''timezone'')
                               (JStr ''system'')) = None \<or>
                   (''get_time_info'' = ''get_current_time'' \<and>
                    ToString (js_or (optional_member (timezone_only (JStr ''Asia/Tokyo'')) ''format'')
                               (JStr ''12hour'')) = None)
                then 2 else 4)\<rparr>"
    by (rule conjunct1)
  then have c: "snd (CallToolRequest_handler_log example_host ''get_time_info''
          (timezone_only (JStr ''Asia/Tokyo'')) noon) = noon_after4"
    by (simp add: js_or_def)
  from u have "\<forall>w'. clock w' (samples w' + 2) = clock noon (samples noon + 2) \<longrightarrow>
      fst (CallToolRequest_handler_log example_host ''get_time_info''
             (timezone_only (JStr ''Asia/Tokyo'')) w') =
      fst (CallToolRequest_handler_log example_host ''get_time_info''
             (timezone_only (JStr ''Asia/Tokyo'')) noon)"
    by (rule conjunct1 [OF conjunct2])
  with k(2) have d: "fst (CallToolRequest_handler_log example_host ''get_time_info''
             (timezone_only (JStr ''Asia/Tokyo'')) noon_after) =
      fst (CallToolRequest_handler_log example_host ''get_time_info''
             (timezone_only (JStr ''Asia/Tokyo'')) noon)"
    by blast
  from h a k(1) b c k(2) d show ?thesis
    by (intro conjI)
qed

text \<open>
  "Sampled exactly once" fails in the server that writes a log: a call of
  \<^verbatim>\<open>get_current_time\<close> without arguments leaves the clock four readings further, one for
  each of its three log lines and one for \<^verbatim>\<open>now\<close>.
\<close>

theorem log_readings_counterexample:
  "samples noon = 0 \<and>
   samples noon_after4 = 4 \<and>
   CallToolRequest_handler_log example_host ''get_current_time'' no_arguments noon =
     (text_result ''Current time: 1/1/1970, 12:00:00 PM'', noon_after4)"
  by (simp add: CallToolRequest_handler_log_def try_block_log_def get_current_time_log_eq
        get_current_time_eq js_or_def log_eq timeString_system bind_sum_def text_result_def
        example_format_def no_options_def noon_after4_def noon_def)

text \<open>
  C10. Two invocations of the same tool at the same clock reading whose arguments agree
  on \<^verbatim>\<open>timezone\<close> (and on \<^verbatim>\<open>format\<close> for \<^verbatim>\<open>get_current_time\<close>) return the same result,
  whatever other keys the arguments hold.
\<close>

theorem undeclared_keys_ignored:
  assumes "optional_member args1 ''timezone'' = optional_member args2 ''timezone''"
    and "tool = ''get_current_time'' \<longrightarrow>
           optional_member args1 ''format'' = optional_member args2 ''format''"
    and "clock w1 (samples w1) = clock w2 (samples w2)"
  shows "fst (CallToolRequest_handler P tool args1 w1) =
         fst (CallToolRequest_handler P tool args2 w2) \<and>
         CallToolRequest_handler P tool args1 w1 = CallToolRequest_handler P tool args2 w1"
proof -
  have "fst (CallToolRequest_handler P tool args1 w1) =
        fst (CallToolRequest_handler P tool args2 w2)"
    using assms
    by (simp add: handler_fst try_block_def get_current_time_eq get_time_info_eq)
  moreover have "CallToolRequest_handler P tool args1 w1 = CallToolRequest_handler P tool args2 w1"
    using assms(1,2)
    by (simp add: CallToolRequest_handler_def try_block_def get_current_time_eq get_time_info_eq)
  ultimately show ?thesis ..
qed

theorem undeclared_keys_ignored_witness:
  "optional_member (timezone_only (JStr ''Asia/Tokyo'')) ''timezone'' =
     optional_member (timezone_and_more (JStr ''Asia/Tokyo'') (JBool True)) ''timezone'' \<and>
   optional_member (timezone_only (JStr ''Asia/Tokyo'')) ''format'' =
     optional_member (timezone_and_more (JStr ''Asia/Tokyo'') (JBool True)) ''format'' \<and>
   optional_member (timezone_only (JStr ''Asia/Tokyo'')) ''verbose'' \<noteq>
     optional_member (timezone_and_more (JStr ''Asia/Tokyo'') (JBool True)) ''verbose'' \<and>
   clock noon (samples noon) = clock noon_after (samples noon_after) \<and>
   fst (CallToolRequest_handler example_host ''get_current_time''
          (timezone_only (JStr ''Asia/Tokyo'')) noon) =
   fst (CallToolRequest_handler example_host ''get_current_time''
          (timezone_and_more (JStr ''Asia/Tokyo'') (JBool True)) noon_after) \<and>
   CallToolRequest_handler example_host ''get_current_time''
          (timezone_and_more (JStr ''Asia/Tokyo'') (JBool True)) noon =
     (text_result ''Current time: 01/01/1970, 09:00:00 PM'', noon_after)"
proof -
  have h: "optional_member (timezone_only (JStr ''Asia/Tokyo'')) ''timezone'' =
      optional_member (timezone_and_more (JStr ''Asia/Tokyo'') (JBool True)) ''timezone''"
    "''get_current_time'' = ''get_current_time'' \<longrightarrow>
      optional_member (timezone_only (JStr ''Asia/Tokyo'')) ''format'' =
      optional_member (timezone_and_more (JStr ''Asia/Tokyo'') (JBool True)) ''format''"
    "clock noon (samples noon) = clock noon_after (samples noon_after)"
    by (simp_all add: noon_after_def)
  have v: "CallToolRequest_handler example_host ''get_current_time''
          (timezone_only (JStr ''Asia/Tokyo'')) noon =
     (text_result ''Current time: 01/01/1970, 09:00:00 PM'', noon_after)"
    by (simp add: CallToolRequest_handler_def try_block_def get_current_time_eq js_or_def
          timeString_zone bind_sum_def text_result_def example_format_def)
  note t = undeclared_keys_ignored [OF h, of example_host]
  from t have a: "fst (CallToolRequest_handler example_host ''get_current_time''
          (timezone_only (JStr ''Asia/Tokyo'')) noon) =
      fst (CallToolRequest_handler example_host ''get_current_time''
          (timezone_and_more (JStr ''Asia/Tokyo'') (JBool True)) noon_after)"
    by (rule conjunct1)
  from t have "CallToolRequest_handler example_host ''get_current_time''
          (timezone_only (JStr ''Asia/Tokyo'')) noon =
      CallToolRequest_handler example_host ''get_current_time''
          (timezone_and_more (JStr ''Asia/Tokyo'') (JBool True)) noon"
    by (rule conjunct2)
  with v have b: "CallToolRequest_handler example_host ''get_current_time''
          (timezone_and_more (JStr ''Asia/Tokyo'') (JBool True)) noon =
     (text_result ''Current time: 01/01/1970, 09:00:00 PM'', noon_after)"
    by simp
  have c: "optional_member (timezone_only (JStr ''Asia/Tokyo'')) ''format'' =
     optional_member (timezone_and_more (JStr ''Asia/Tokyo'') (JBool True)) ''format''"
    "optional_member (timezone_only (JStr ''Asia/Tokyo'')) ''verbose'' \<noteq>
     optional_member (timezone_and_more (JStr ''Asia/Tokyo'') (JBool True)) ''verbose''"
    by simp_all
  from h(1) c h(3) a b show ?thesis
    by (intro conjI)
qed

end
